theory Spec2Isabelle
  imports Complex_Main "HOL-Library.AList"
begin

section \<open>JavaScript values and errors\<close>

text \<open>
  Values that reach the services as parsed JSON or parsed CSV cells. Numbers are modelled
  as reals (no NaN, no infinities); objects and arrays that are only tested for truthiness
  are the opaque \<open>JObject\<close>.
\<close>

datatype jsval = JUndefined | JNull | JBool bool | JNum real | JStr string | JObject

text \<open>JavaScript truthiness, as used by \<open>!!x\<close>, \<open>x || y\<close> and \<open>if (x)\<close>.\<close>

fun truthy :: "jsval \<Rightarrow> bool" where
  "truthy JUndefined = False"
| "truthy JNull = False"
| "truthy (JBool b) = b"
| "truthy (JNum x) = (x \<noteq> 0)"
| "truthy (JStr s) = (s \<noteq> [])"
| "truthy JObject = True"

text \<open>Truthiness of an optional string field (\<open>undefined\<close> or a string).\<close>

definition truthyStr :: "string option \<Rightarrow> bool" where
  "truthyStr s = (case s of None \<Rightarrow> False | Some t \<Rightarrow> t \<noteq> [])"

text \<open>A thrown value: an \<open>Error\<close> or a \<open>TypeError\<close> with its message.\<close>

datatype js_error = Error string | TypeError string

text \<open>What a template literal \<open>`${reason}`\<close> prints for a thrown error.\<close>

fun errToString :: "js_error \<Rightarrow> string" where
  "errToString (Error m) = ''Error: '' @ m"
| "errToString (TypeError m) = ''TypeError: '' @ m"

text \<open>
  White space and \<open>String.prototype.trim\<close> on ASCII text (the white space of JavaScript
  beyond ASCII is outside the model).
\<close>

definition isSpace :: "char \<Rightarrow> bool" where
  "isSpace c = (c \<in> set [CHR '' '', CHR 0x09, CHR 0x0A, CHR 0x0B, CHR 0x0C, CHR 0x0D])"

definition trim :: "string \<Rightarrow> string" where
  "trim s = rev (dropWhile isSpace (rev (dropWhile isSpace s)))"

text \<open>
  \<open>StringToNumber\<close>, the conversion that \<open>ToNumber\<close> applies to a string: white space
  at both ends is dropped; the empty string is 0; a binary, octal or hexadecimal integer
  literal (\<open>0b\<close>, \<open>0o\<close>, \<open>0x\<close>, no sign) or a decimal literal (optional sign, digits with
  an optional fraction or a fraction alone, optional exponent) is its value; every other
  string is NaN (\<open>None\<close>). The value is the exact real, not its rounding to a double, and
  the literals \<open>Infinity\<close>, \<open>+Infinity\<close> and \<open>-Infinity\<close>, whose value is no real, read
  as NaN here.
\<close>

definition digitValue :: "char \<Rightarrow> nat option" where
  "digitValue c = map_of (zip ''0123456789abcdef'' [0 ..< 16]) c"

definition hexValue :: "char \<Rightarrow> nat option" where
  "hexValue c =
     (case digitValue c of
        Some v \<Rightarrow> Some v
      | None \<Rightarrow> map_of (zip ''ABCDEF'' [10 ..< 16]) c)"

definition isDigitOf :: "nat \<Rightarrow> char \<Rightarrow> bool" where
  "isDigitOf radix c = (case hexValue c of None \<Rightarrow> False | Some v \<Rightarrow> v < radix)"

definition digitsValue :: "nat \<Rightarrow> string \<Rightarrow> nat" where
  "digitsValue radix ds =
     foldl (\<lambda>n c. radix * n + (case hexValue c of None \<Rightarrow> 0 | Some v \<Rightarrow> v)) 0 ds"

text \<open>A non-empty run of digits of the radix, as a number.\<close>

definition digitsNumber :: "nat \<Rightarrow> string \<Rightarrow> nat option" where
  "digitsNumber radix ds =
     (if ds \<noteq> [] \<and> list_all (isDigitOf radix) ds then Some (digitsValue radix ds) else None)"

definition nonDecimalLiteral :: "string \<Rightarrow> nat option" where
  "nonDecimalLiteral t =
     (case t of
        z # x # ds \<Rightarrow>
          if z \<noteq> CHR ''0'' then None
          else if x = CHR ''x'' \<or> x = CHR ''X'' then digitsNumber 16 ds
          else if x = CHR ''o'' \<or> x = CHR ''O'' then digitsNumber 8 ds
          else if x = CHR ''b'' \<or> x = CHR ''B'' then digitsNumber 2 ds
          else None
      | _ \<Rightarrow> None)"

text \<open>The exponent part after \<open>e\<close> or \<open>E\<close>: an optional sign and digits.\<close>

definition exponentPart :: "string \<Rightarrow> int option" where
  "exponentPart ex =
     (case ex of
        [] \<Rightarrow> None
      | c # ds \<Rightarrow>
          if c = CHR ''+'' then map_option int (digitsNumber 10 ds)
          else if c = CHR ''-'' then map_option (\<lambda>n. - int n) (digitsNumber 10 ds)
          else map_option int (digitsNumber 10 ex))"

text \<open>\<open>m\<close> times ten to the power \<open>k\<close>.\<close>

definition scale10 :: "nat \<Rightarrow> int \<Rightarrow> real" where
  "scale10 m k = (if k \<ge> 0 then real m * 10 ^ nat k else real m / 10 ^ nat (- k))"

definition unsignedDecimal :: "string \<Rightarrow> real option" where
  "unsignedDecimal u =
     (let isE = (\<lambda>c. c = CHR ''e'' \<or> c = CHR ''E'');
          mantissa = takeWhile (\<lambda>c. \<not> isE c) u;
          afterMantissa = dropWhile (\<lambda>c. \<not> isE c) u;
          intDigits = takeWhile (isDigitOf 10) mantissa;
          afterInt = dropWhile (isDigitOf 10) mantissa;
          fraction = (case afterInt of
                        [] \<Rightarrow> Some []
                      | c # ds \<Rightarrow>
                          if c = CHR ''.'' \<and> list_all (isDigitOf 10) ds then Some ds else None);
          exponent = (case afterMantissa of [] \<Rightarrow> Some 0 | e # ex \<Rightarrow> exponentPart ex)
      in (case (fraction, exponent) of
            (Some fracDigits, Some ex) \<Rightarrow>
              if intDigits = [] \<and> fracDigits = [] then None
              else Some (scale10 (digitsValue 10 (intDigits @ fracDigits))
                           (ex - int (length fracDigits)))
          | _ \<Rightarrow> None))"

definition stringToNumber :: "string \<Rightarrow> real option" where
  "stringToNumber s =
     (case trim s of
        [] \<Rightarrow> Some 0
      | c # u \<Rightarrow>
          if c = CHR ''+'' then unsignedDecimal u
          else if c = CHR ''-'' then map_option uminus (unsignedDecimal u)
          else (case nonDecimalLiteral (c # u) of
                  Some n \<Rightarrow> Some (real n)
                | None \<Rightarrow> unsignedDecimal (c # u)))"

text \<open>
  \<open>ToNumber\<close>, as the subtraction of a comparator applies it; \<open>None\<close> is NaN. An object
  converts through its primitive value, which the opaque \<open>JObject\<close> does not carry: it
  reads as NaN, as a plain object does.
\<close>

fun toNumber :: "jsval \<Rightarrow> real option" where
  "toNumber (JNum x) = Some x"
| "toNumber JNull = Some 0"
| "toNumber (JBool b) = Some (if b then 1 else 0)"
| "toNumber (JStr s) = stringToNumber s"
| "toNumber JUndefined = None"
| "toNumber JObject = None"

section \<open>CoreStackService\<close>

text \<open>
  The service keeps the API key and its own online flag. The constructor reads
  \<open>localStorage.getItem('corestack_api_key')\<close> (\<open>None\<close> for \<open>null\<close>) and
  \<open>navigator.onLine\<close>.
\<close>

record CoreStackService =
  apiKey :: "string option"
  csOnline :: bool

definition DEFAULT_API_KEY :: string where
  "DEFAULT_API_KEY = ''x0bXxURa.B9Qgfxd0aKxxJ8GIDHA5FCSIAc52hFgg''"

text \<open>\<open>this.apiKey = localStorage.getItem(...) || DEFAULT_API_KEY\<close>\<close>

definition newCoreStackService :: "string option \<Rightarrow> bool \<Rightarrow> CoreStackService" where
  "newCoreStackService stored navigatorOnLine =
     \<lparr> apiKey = Some (case stored of
                        None \<Rightarrow> DEFAULT_API_KEY
                      | Some k \<Rightarrow> if k \<noteq> [] then k else DEFAULT_API_KEY),
       csOnline = navigatorOnLine \<rparr>"

definition setApiKey :: "string \<Rightarrow> CoreStackService \<Rightarrow> CoreStackService" where
  "setApiKey key svc = svc\<lparr> apiKey := Some key \<rparr>"

definition hasApiKey :: "CoreStackService \<Rightarrow> bool" where
  "hasApiKey svc = truthyStr (apiKey svc)"

definition isAvailable :: "CoreStackService \<Rightarrow> bool" where
  "isAvailable svc = (csOnline svc \<and> hasApiKey svc)"

section \<open>WeatherService\<close>

text \<open>
  The body of a successful Open-Meteo response, as far as \<open>getWeather\<close> reads it. The
  parallel arrays of \<open>data.daily\<close> are one list of days.
\<close>

record rawCurrent =
  temperature_2m :: real
  relative_humidity_2m :: real
  rc_precipitation :: real
  wind_speed_10m :: real
  wind_direction_10m :: real
  weather_code :: int
  is_day :: int

record rawDay =
  rd_time :: string
  temperature_2m_max :: real
  temperature_2m_min :: real
  precipitation_sum :: real
  precipitation_probability_max :: real
  rd_weather_code :: int

record rawWeather =
  rw_current :: rawCurrent
  rw_daily :: "rawDay list"

record CurrentWeather =
  temperature :: real
  humidity :: real
  cw_precipitation :: real
  windSpeed :: real
  windDirection :: real
  weatherCode :: int
  weatherDescription :: string
  isDay :: bool

record WeatherForecast =
  wf_date :: string
  tempMax :: real
  tempMin :: real
  wf_precipitation :: real
  precipitationProbability :: real
  wf_weatherCode :: int
  wf_weatherDescription :: string

record WeatherData =
  current :: CurrentWeather
  forecast :: "WeatherForecast list"
  fetchedAt :: string

definition WEATHER_CODES :: "(int \<times> string) list" where
  "WEATHER_CODES =
    [(0, ''Clear sky''), (1, ''Mainly clear''), (2, ''Partly cloudy''), (3, ''Overcast''),
     (45, ''Fog''), (48, ''Depositing rime fog''), (51, ''Light drizzle''),
     (53, ''Moderate drizzle''), (55, ''Dense drizzle''), (61, ''Slight rain''),
     (63, ''Moderate rain''), (65, ''Heavy rain''), (66, ''Light freezing rain''),
     (67, ''Heavy freezing rain''), (71, ''Slight snow''), (73, ''Moderate snow''),
     (75, ''Heavy snow''), (80, ''Slight rain showers''), (81, ''Moderate rain showers''),
     (82, ''Violent rain showers''), (85, ''Slight snow showers''),
     (86, ''Heavy snow showers''), (95, ''Thunderstorm''),
     (96, ''Thunderstorm with slight hail''), (99, ''Thunderstorm with heavy hail'')]"

text \<open>\<open>WEATHER_CODES[code] || 'Unknown'\<close>\<close>

definition describeCode :: "int \<Rightarrow> string" where
  "describeCode c = (case map_of WEATHER_CODES c of None \<Rightarrow> ''Unknown'' | Some d \<Rightarrow> d)"

definition toCurrent :: "rawCurrent \<Rightarrow> CurrentWeather" where
  "toCurrent c =
     \<lparr> temperature = temperature_2m c,
       humidity = relative_humidity_2m c,
       cw_precipitation = rc_precipitation c,
       windSpeed = wind_speed_10m c,
       windDirection = wind_direction_10m c,
       weatherCode = weather_code c,
       weatherDescription = describeCode (weather_code c),
       isDay = (is_day c = 1) \<rparr>"

definition toForecast :: "rawDay \<Rightarrow> WeatherForecast" where
  "toForecast d =
     \<lparr> wf_date = rd_time d,
       tempMax = temperature_2m_max d,
       tempMin = temperature_2m_min d,
       wf_precipitation = precipitation_sum d,
       precipitationProbability = precipitation_probability_max d,
       wf_weatherCode = rd_weather_code d,
       wf_weatherDescription = describeCode (rd_weather_code d) \<rparr>"

definition toWeatherData :: "rawWeather \<Rightarrow> string \<Rightarrow> WeatherData" where
  "toWeatherData raw isoStr =
     \<lparr> current = toCurrent (rw_current raw),
       forecast = map toForecast (rw_daily raw),
       fetchedAt = isoStr \<rparr>"

text \<open>
  \<open>Number.prototype.toFixed(3)\<close> on a real \<open>x\<close> with \<open>|x| < 10^21\<close>: the sign is
  split off, \<open>n\<close> is the integer nearest to \<open>|x| * 1000\<close> (the larger one on a tie), and
  its decimal digits are padded to at least four before the point is inserted.
\<close>

definition digitChar :: "nat \<Rightarrow> char" where
  "digitChar d =
     (if d = 0 then CHR ''0'' else if d = 1 then CHR ''1'' else if d = 2 then CHR ''2''
      else if d = 3 then CHR ''3'' else if d = 4 then CHR ''4'' else if d = 5 then CHR ''5''
      else if d = 6 then CHR ''6'' else if d = 7 then CHR ''7'' else if d = 8 then CHR ''8''
      else CHR ''9'')"

fun digitsOf :: "nat \<Rightarrow> string" where
  "digitsOf n =
     (if n < 10 then [digitChar n] else digitsOf (n div 10) @ [digitChar (n mod 10)])"

declare digitsOf.simps [simp del]

definition toFixed3 :: "real \<Rightarrow> string" where
  "toFixed3 x =
     (let s = (if x < 0 then [CHR ''-''] else []);
          y = (if x < 0 then - x else x);
          n = nat \<lfloor>y * 1000 + 1 / 2\<rfloor>;
          m = digitsOf n;
          m' = replicate (4 - length m) (CHR ''0'') @ m;
          k = length m'
      in s @ take (k - 3) m' @ [CHR ''.''] @ drop (k - 3) m')"

text \<open>\<open>`${lat.toFixed(3)},${lon.toFixed(3)}`\<close>\<close>

definition cacheKey :: "real \<Rightarrow> real \<Rightarrow> string" where
  "cacheKey lat lon = toFixed3 lat @ [CHR '',''] @ toFixed3 lon"

text \<open>
  What one \<open>fetch\<close> does: it rejects, answers with a status that is not ok, or answers ok
  with a body. For the weather API the body is \<open>None\<close> when \<open>response.json()\<close> or the
  field accesses that build the payload throw.
\<close>

datatype 'a http = NetworkError string | HttpError nat string | HttpOk 'a

record cacheEntry =
  ce_data :: WeatherData
  expiry :: int

record WeatherService =
  wsOnline :: bool
  cache :: "string \<Rightarrow> cacheEntry option"

text \<open>\<open>30 * 60 * 1000\<close> milliseconds.\<close>

definition cacheDuration :: int where
  "cacheDuration = 30 * 60 * 1000"

text \<open>
  The surroundings of one call of \<open>getWeather\<close>: the clock at the cache check, the
  answer of the network if it is asked, and the two clock readings taken when the payload
  is built (\<open>new Date().toISOString()\<close>) and cached (\<open>Date.now()\<close>).
\<close>

record weatherEnv =
  nowCheck :: int
  response :: "rawWeather option http"
  isoNow :: string
  nowStore :: int

text \<open>
  The part of \<open>getWeather\<close> inside \<open>try\<close>: one request, and on an ok answer with a
  usable body the payload is built, cached and returned. Every failure is caught and
  becomes \<open>null\<close>.
\<close>

definition fetchWeather ::
  "weatherEnv \<Rightarrow> real \<Rightarrow> real \<Rightarrow> WeatherService \<Rightarrow>
     (WeatherData option \<times> (real \<times> real) list) \<times> WeatherService" where
  "fetchWeather env lat lon ws =
     (case response env of
        HttpOk (Some raw) \<Rightarrow>
          (let weatherData = toWeatherData raw (isoNow env)
           in ((Some weatherData, [(lat, lon)]),
               ws\<lparr> cache := (cache ws)(cacheKey lat lon \<mapsto>
                    \<lparr> ce_data = weatherData, expiry = nowStore env + cacheDuration \<rparr>) \<rparr>))
      | _ \<Rightarrow> ((None, [(lat, lon)]), ws))"

text \<open>
  \<open>getWeather\<close> returns the payload or \<open>null\<close>, the requests it sent to the network
  (the coordinates of each), and the service afterwards.
\<close>

definition getWeather ::
  "weatherEnv \<Rightarrow> real \<Rightarrow> real \<Rightarrow> WeatherService \<Rightarrow>
     (WeatherData option \<times> (real \<times> real) list) \<times> WeatherService" where
  "getWeather env lat lon ws =
     (if \<not> wsOnline ws then ((None, []), ws)
      else
        (case cache ws (cacheKey lat lon) of
           Some cached \<Rightarrow>
             if expiry cached > nowCheck env then ((Some (ce_data cached), []), ws)
             else fetchWeather env lat lon ws
         | None \<Rightarrow> fetchWeather env lat lon ws))"

text \<open>
  What happens to the service between two queries: the browser's \<open>online\<close> and
  \<open>offline\<close> events, and other queries.
\<close>

datatype weatherEvent = GoOnline | GoOffline | Query weatherEnv real real

fun weatherStep :: "weatherEvent \<Rightarrow> WeatherService \<Rightarrow> WeatherService" where
  "weatherStep GoOnline ws = ws\<lparr> wsOnline := True \<rparr>"
| "weatherStep GoOffline ws = ws\<lparr> wsOnline := False \<rparr>"
| "weatherStep (Query env lat lon) ws = snd (getWeather env lat lon ws)"

fun weatherRun :: "weatherEvent list \<Rightarrow> WeatherService \<Rightarrow> WeatherService" where
  "weatherRun [] ws = ws"
| "weatherRun (ev # evs) ws = weatherRun evs (weatherStep ev ws)"

text \<open>The clock reading an event takes at its cache check, if it is a query.\<close>

fun eventClock :: "weatherEvent \<Rightarrow> int option" where
  "eventClock (Query env lat lon) = Some (nowCheck env)"
| "eventClock _ = None"

text \<open>
  A cache entry for key \<open>k\<close> is fresh at clock reading \<open>t\<close> when it exists and
  \<open>cached.expiry > t\<close>: the test \<open>getWeather\<close> makes before it answers from the cache.
\<close>

definition freshEntry :: "WeatherService \<Rightarrow> string \<Rightarrow> int \<Rightarrow> bool" where
  "freshEntry ws k t = (case cache ws k of None \<Rightarrow> False | Some cached \<Rightarrow> expiry cached > t)"

section \<open>GeoJSON features and turf\<close>

text \<open>
  An object of parsed JSON is a list of its own properties; a property that is absent reads
  as \<open>undefined\<close>.
\<close>

type_synonym props = "(string \<times> jsval) list"

definition getProp :: "props \<Rightarrow> string \<Rightarrow> jsval" where
  "getProp ps k = (case map_of ps k of None \<Rightarrow> JUndefined | Some v \<Rightarrow> v)"

datatype geometryType =
  Point | MultiPoint | LineString | MultiLineString | Polygon | MultiPolygon | GeometryCollection

text \<open>
  A feature carries the type tag of its geometry, the geometry itself (its coordinates,
  left abstract as \<open>'g\<close>) and its properties, which GeoJSON allows to be \<open>null\<close>.
\<close>

record 'g feature =
  geometryType :: geometryType
  geometry :: 'g
  properties :: "props option"

text \<open>
  \<open>turf.booleanPointInPolygon\<close> is a library function: it is a parameter of the model. It
  takes the point \<open>[lon, lat]\<close> and a feature, and returns a boolean or throws.
\<close>

type_synonym 'g pip = "real \<times> real \<Rightarrow> 'g feature \<Rightarrow> js_error + bool"

definition isPolygonal :: "'g feature \<Rightarrow> bool" where
  "isPolygonal f = (geometryType f = Polygon \<or> geometryType f = MultiPolygon)"

section \<open>DatasetManager\<close>

datatype format = geojson | csv | pmtiles | mbtiles | tiff | png

text \<open>
  The fields of a \<open>DatasetLayer\<close> that the manager reads: \<open>id\<close>, \<open>source.path\<close>,
  \<open>source.format\<close>, \<open>query?.fields\<close> and \<open>enabled\<close>. The type gives a query spec a
  field list, so \<open>query?.fields\<close> is \<open>None\<close> for a layer without a query spec and the
  list, possibly empty, for a layer with one.
\<close>

record DatasetLayer =
  layerId :: string
  sourcePath :: string
  sourceFormat :: format
  queryFields :: "string list option"
  enabled :: bool

text \<open>The layers of \<open>DEFAULT_MANIFEST\<close>, the manifest of a new \<open>DatasetManager\<close>.\<close>

definition DEFAULT_MANIFEST :: "DatasetLayer list" where
  "DEFAULT_MANIFEST =
     [\<lparr> layerId = ''western_ghats_boundary'',
        sourcePath = ''/data/boundaries/western_ghats_boundary.geojson'',
        sourceFormat = geojson, queryFields = Some [''REC_NUM'', ''DATA_VALUE''],
        enabled = True \<rparr>,
      \<lparr> layerId = ''dakshina_kannada_boundary'',
        sourcePath = ''/data/boundaries/dakshina_kannada_boundary.geojson'',
        sourceFormat = geojson, queryFields = Some [], enabled = True \<rparr>,
      \<lparr> layerId = ''lulc_glc_composition'',
        sourcePath = ''/data/lulc/dakshina_kannada_lulc_glc_composition.csv'',
        sourceFormat = csv,
        queryFields = Some [''year'', ''class_code'', ''class_name'', ''area_km2'', ''percent''],
        enabled = True \<rparr>,
      \<lparr> layerId = ''tree_cover_glc'',
        sourcePath = ''/data/lulc/dakshina_kannada_tree_cover_glc.csv'',
        sourceFormat = csv, queryFields = Some [''year'', ''tree_cover_km2'', ''tree_cover_pct''],
        enabled = True \<rparr>,
      \<lparr> layerId = ''built_area_glc'',
        sourcePath = ''/data/lulc/dakshina_kannada_built_glc.csv'',
        sourceFormat = csv, queryFields = Some [''year'', ''built_km2'', ''built_pct''],
        enabled = True \<rparr>,
      \<lparr> layerId = ''built_area_dw'',
        sourcePath = ''/data/lulc/dakshina_kannada_built_dynamic_world.csv'',
        sourceFormat = csv, queryFields = Some [''year'', ''built_km2'', ''built_pct''],
        enabled = True \<rparr>,
      \<lparr> layerId = ''forest_typology'',
        sourcePath = ''/data/forest/dakshina_kannada_forest_typology.csv'',
        sourceFormat = csv, queryFields = Some [''forest_type'', ''area_km2'', ''percent''],
        enabled = True \<rparr>,
      \<lparr> layerId = ''corestack_blocks'',
        sourcePath = ''/data/corestack/dakshina_kannada_corestack_blocks.csv'',
        sourceFormat = csv, queryFields = Some [''block_id'', ''block_name'', ''district''],
        enabled = True \<rparr>,
      \<lparr> layerId = ''cropping_intensity'',
        sourcePath = ''/data/corestack/cropping_intensity_analysis.csv'',
        sourceFormat = csv,
        queryFields = Some [''grid_id'', ''mws_id'', ''district'', ''cropping_intensity_avg'',
                            ''cropping_intensity_trend''],
        enabled = True \<rparr>,
      \<lparr> layerId = ''water_balance'',
        sourcePath = ''/data/corestack/water_balance_summary.csv'',
        sourceFormat = csv,
        queryFields = Some [''watershed_id'', ''precipitation'', ''runoff'', ''balance''],
        enabled = True \<rparr>,
      \<lparr> layerId = ''district_coverage'',
        sourcePath = ''/data/coverage/wg_district_coverage.csv'',
        sourceFormat = csv, queryFields = Some [''state'', ''district'', ''corestack_covered''],
        enabled = True \<rparr>,
      \<lparr> layerId = ''district_urbanization'',
        sourcePath = ''/data/analysis/district_urbanization_analysis.csv'',
        sourceFormat = csv,
        queryFields = Some [''district'', ''state'', ''urbanization_rate'', ''change_pct''],
        enabled = True \<rparr>,
      \<lparr> layerId = ''regional_forest_comparison'',
        sourcePath = ''/data/forest/regional_forest_comparison.csv'',
        sourceFormat = csv, queryFields = Some [''region'', ''forest_cover_pct'', ''change_pct''],
        enabled = True \<rparr>]"

text \<open>
  What \<open>loadedData\<close> holds for a layer: a feature collection, the array of records of a
  parsed CSV file, or some other truthy JSON value.
\<close>

datatype 'g layerData = GeoJSONData "'g feature list" | CsvData "props list" | OtherData

record 'g DatasetManager =
  layers :: "DatasetLayer list"
  loadedData :: "string \<Rightarrow> 'g layerData option"
  geojsonLayers :: "string \<Rightarrow> 'g feature list option"

text \<open>The manager that the constructor builds: the default manifest and nothing loaded.\<close>

definition newDatasetManager :: "'g DatasetManager" where
  "newDatasetManager =
     \<lparr> layers = DEFAULT_MANIFEST, loadedData = Map.empty, geojsonLayers = Map.empty \<rparr>"

text \<open>
  The body of \<open>/data/dataset-manifest.json\<close> when the response is ok. \<open>initialize\<close>
  assigns \<open>await response.json()\<close> to \<open>this.manifest\<close> unchecked, so what the file holds
  matters: text that is no JSON, a JSON object without a \<open>layers\<close> property, or a
  manifest whose \<open>layers\<close> is an array of layers.
\<close>

datatype manifestBody = NotJson | JsonWithoutLayers | JsonManifest "DatasetLayer list"

text \<open>
  What \<open>DatasetManager.initialize\<close> meets outside the program: the answer to the fetch of
  the manifest file; what \<open>getCachedDataset\<close> resolves to for a layer id (\<open>None\<close> for
  \<open>undefined\<close>) or rejects with; the answer to the fetch of a layer's file, whose body
  either fails to parse or is the data that \<open>loadLayer\<close> makes of it for the layer's
  format (\<open>None\<close> for a body that parses to a falsy value such as \<open>null\<close>); and whether
  \<open>cacheDataset\<close> resolves for a layer id.
\<close>

record 'g datasetEnv =
  manifestFile :: "manifestBody http"
  getCachedDataset :: "string \<Rightarrow> js_error + 'g layerData option"
  layerFile :: "string \<Rightarrow> format \<Rightarrow> (js_error + 'g layerData option) http"
  cacheDataset :: "string \<Rightarrow> js_error + unit"

text \<open>
  The \<open>try\<close> block of \<open>initialize\<close>: a manifest file that is fetched and parsed replaces
  the manifest; a failed fetch, a response that is not ok and a body that is no JSON leave
  it. The result is the \<open>layers\<close> property of \<open>this.manifest\<close> afterwards, \<open>None\<close> for
  \<open>undefined\<close>.
\<close>

definition fetchManifest :: "'g datasetEnv \<Rightarrow> 'g DatasetManager \<Rightarrow> DatasetLayer list option" where
  "fetchManifest env dm =
     (case manifestFile env of
        HttpOk (JsonManifest ls) \<Rightarrow> Some ls
      | HttpOk JsonWithoutLayers \<Rightarrow> None
      | _ \<Rightarrow> Some (layers dm))"

text \<open>
  \<open>loadLayer\<close>: a fetch that throws, a response that is not ok and a body that does not
  parse all make it throw; otherwise it returns the parsed data.
\<close>

definition loadLayer :: "'g datasetEnv \<Rightarrow> DatasetLayer \<Rightarrow> js_error + 'g layerData option" where
  "loadLayer env layer =
     (case layerFile env (sourcePath layer) (sourceFormat layer) of
        NetworkError m \<Rightarrow> Inl (TypeError m)
      | HttpError status m \<Rightarrow> Inl (Error (''Failed to fetch '' @ sourcePath layer))
      | HttpOk body \<Rightarrow> body)"

text \<open>
  \<open>if (layer.source.format === 'geojson') this.geojsonLayers.set(layer.id, data as
  GeoJSON.FeatureCollection)\<close>. The cast is unchecked; the model follows it for data that
  is a feature collection and leaves \<open>geojsonLayers\<close> alone for other data.
\<close>

definition setGeoJSONLayer ::
  "DatasetLayer \<Rightarrow> 'g layerData \<Rightarrow> 'g DatasetManager \<Rightarrow> 'g DatasetManager" where
  "setGeoJSONLayer layer dat dm =
     (if sourceFormat layer = geojson then
        (case dat of
           GeoJSONData fc \<Rightarrow> dm\<lparr> geojsonLayers := (geojsonLayers dm)(layerId layer \<mapsto> fc) \<rparr>
         | _ \<Rightarrow> dm)
      else dm)"

definition setLoadedData ::
  "DatasetLayer \<Rightarrow> 'g layerData \<Rightarrow> 'g DatasetManager \<Rightarrow> 'g DatasetManager" where
  "setLoadedData layer dat dm = dm\<lparr> loadedData := (loadedData dm)(layerId layer \<mapsto> dat) \<rparr>"

text \<open>
  The callback of \<open>preloadLayers\<close> for one enabled layer. Its whole body is a \<open>try\<close>
  block whose \<open>catch\<close> only logs: a cached dataset is used when there is one; otherwise
  the layer is loaded from its source, stored, and written to the cache. A rejection of
  \<open>getCachedDataset\<close> or \<open>loadLayer\<close> leaves the layer unloaded; a rejection of
  \<open>cacheDataset\<close> comes after \<open>loadedData.set\<close> and before \<open>geojsonLayers.set\<close>.
\<close>

definition preloadLayer ::
  "'g datasetEnv \<Rightarrow> DatasetLayer \<Rightarrow> 'g DatasetManager \<Rightarrow> 'g DatasetManager" where
  "preloadLayer env layer dm =
     (case getCachedDataset env (layerId layer) of
        Inl e \<Rightarrow> dm
      | Inr (Some cached) \<Rightarrow> setGeoJSONLayer layer cached (setLoadedData layer cached dm)
      | Inr None \<Rightarrow>
          (case loadLayer env layer of
             Inl e \<Rightarrow> dm
           | Inr None \<Rightarrow> dm
           | Inr (Some dat) \<Rightarrow>
               (case cacheDataset env (layerId layer) of
                  Inl e \<Rightarrow> setLoadedData layer dat dm
                | Inr u \<Rightarrow> setGeoJSONLayer layer dat (setLoadedData layer dat dm))))"

text \<open>
  \<open>preloadLayers\<close>. Its first statement, \<open>this.manifest.layers.filter(l => l.enabled)\<close>,
  is outside every \<open>try\<close>: on a manifest without \<open>layers\<close> it throws a TypeError, which
  rejects \<open>initialize\<close>. The callbacks run under \<open>Promise.all\<close>; they write under the
  ids of their layers, and the model runs them in the order of the manifest. The state of
  the model holds the layers of a manifest that has them; after a rejection the manager
  is not followed further.
\<close>

definition preloadLayers ::
  "'g datasetEnv \<Rightarrow> DatasetLayer list option \<Rightarrow> 'g DatasetManager \<Rightarrow>
     js_error + 'g DatasetManager" where
  "preloadLayers env manifestLayers dm =
     (case manifestLayers of
        None \<Rightarrow> Inl (TypeError ''Cannot read properties of undefined (reading 'filter')'')
      | Some ls \<Rightarrow>
          Inr (foldl (\<lambda>d layer. preloadLayer env layer d) (dm\<lparr> layers := ls \<rparr>)
                 (filter enabled ls)))"

text \<open>\<open>DatasetManager.initialize\<close>: the manifest, then the enabled layers.\<close>

definition DatasetManager_initialize ::
  "'g datasetEnv \<Rightarrow> 'g DatasetManager \<Rightarrow> js_error + 'g DatasetManager" where
  "DatasetManager_initialize env dm = preloadLayers env (fetchManifest env dm) dm"

definition getLayers :: "'g DatasetManager \<Rightarrow> DatasetLayer list" where
  "getLayers dm = layers dm"

definition getLayerById :: "'g DatasetManager \<Rightarrow> string \<Rightarrow> DatasetLayer option" where
  "getLayerById dm lid = find (\<lambda>l. layerId l = lid) (layers dm)"

text \<open>
  The value of one field of a layer's entry: a JSON value, or the array of records under
  \<open>_sample\<close>. An entry is an object, kept as the list of its fields in insertion order;
  \<open>DatasetValues\<close> is the object of entries keyed by layer id.
\<close>

datatype lval = Val jsval | Recs "props list"

type_synonym fieldValues = "(string \<times> lval) list"

type_synonym DatasetValues = "(string \<times> fieldValues) list"

text \<open>
  The loop over \<open>geojson.features\<close>: the first polygon or multipolygon for which turf
  answers true ends the loop; a throw of turf leaves \<open>getValuesAtPoint\<close>.
\<close>

fun findFeature :: "'g pip \<Rightarrow> real \<times> real \<Rightarrow> 'g feature list \<Rightarrow> js_error + 'g feature option" where
  "findFeature pip point [] = Inr None"
| "findFeature pip point (f # fs) =
     (if isPolygonal f then
        (case pip point f of
           Inl e \<Rightarrow> Inl e
         | Inr True \<Rightarrow> Inr (Some f)
         | Inr False \<Rightarrow> findFeature pip point fs)
      else findFeature pip point fs)"

text \<open>\<open>feature.properties?.[field]\<close>\<close>

definition featureProp :: "'g feature \<Rightarrow> string \<Rightarrow> jsval" where
  "featureProp f field =
     (case properties f of None \<Rightarrow> JUndefined | Some ps \<Rightarrow> getProp ps field)"

text \<open>
  \<open>for (const field of layer.query.fields) values[layerId][field] = ...\<close>, starting from
  the empty object.
\<close>

definition extractFields :: "string list \<Rightarrow> 'g feature \<Rightarrow> fieldValues" where
  "extractFields flds f =
     foldl (\<lambda>obj field. AList.update field (Val (featureProp f field)) obj) [] flds"

text \<open>\<open>{ ...feature.properties }\<close>\<close>

definition spreadProperties :: "'g feature \<Rightarrow> fieldValues" where
  "spreadProperties f =
     (case properties f of None \<Rightarrow> [] | Some ps \<Rightarrow> map (\<lambda>(k, v). (k, Val v)) ps)"

definition featureValues :: "DatasetLayer \<Rightarrow> 'g feature \<Rightarrow> fieldValues" where
  "featureValues layer f =
     (case queryFields layer of
        Some flds \<Rightarrow> extractFields flds f
      | None \<Rightarrow> spreadProperties f)"

text \<open>
  \<open>Array.from(new Set(xs))\<close>: the distinct values in the order of their first occurrence.
\<close>

fun uniq :: "'a list \<Rightarrow> 'a list" where
  "uniq [] = []"
| "uniq (x # xs) = x # filter (\<lambda>y. y \<noteq> x) (uniq xs)"

text \<open>
  The comparator \<open>(a, b) => b - a\<close>; \<open>Array.prototype.sort\<close> reads a NaN result as 0.
\<close>

definition compareDesc :: "jsval \<Rightarrow> jsval \<Rightarrow> real" where
  "compareDesc a b =
     (case (toNumber b, toNumber a) of (Some y, Some x) \<Rightarrow> y - x | _ \<Rightarrow> 0)"

text \<open>
  \<open>Array.prototype.sort\<close> is a stable sort; it is modelled as insertion sort. Every
  implementation gives this result when the comparator is consistent, which it is when no
  element is NaN under \<open>ToNumber\<close>; otherwise the order is implementation-defined.
\<close>

fun insertSorted :: "jsval \<Rightarrow> jsval list \<Rightarrow> jsval list" where
  "insertSorted x [] = [x]"
| "insertSorted x (y # ys) =
     (if compareDesc y x \<le> 0 then y # insertSorted x ys else x # y # ys)"

definition sortDesc :: "jsval list \<Rightarrow> jsval list" where
  "sortDesc xs = foldl (\<lambda>sorted x. insertSorted x sorted) [] xs"

text \<open>\<open>records.map(r => r.year).filter(y => y !== undefined)\<close>, made unique and sorted.\<close>

definition yearsOf :: "props list \<Rightarrow> jsval list" where
  "yearsOf records =
     sortDesc (uniq (filter (\<lambda>y. y \<noteq> JUndefined) (map (\<lambda>r. getProp r ''year'') records)))"

text \<open>
  The summary of a CSV layer with at least one record; with no record the entry stays as
  it is.
\<close>

definition csvSummary :: "props list \<Rightarrow> fieldValues" where
  "csvSummary records =
     (case yearsOf records of
        latestYear # _ \<Rightarrow>
          (let latestRecords = filter (\<lambda>r. getProp r ''year'' = latestYear) records
           in [(''_source'', Val (JStr ''csv_summary'')),
               (''_year'', Val latestYear),
               (''_recordCount'', Val (JNum (real (length latestRecords)))),
               (''_sample'', Recs (take 3 latestRecords))])
      | [] \<Rightarrow>
          [(''_source'', Val (JStr ''csv_summary'')),
           (''_recordCount'', Val (JNum (real (length records)))),
           (''_sample'', Recs (take 3 records))])"

text \<open>
  One round of the loop over \<open>activeLayerIds\<close>. A layer that is not in the manifest or
  has no loaded data is skipped; otherwise the entry is set to the empty object, then
  filled by the spatial query of a GeoJSON layer or by the summary of a CSV layer.
\<close>

definition layerStep ::
  "'g pip \<Rightarrow> 'g DatasetManager \<Rightarrow> real \<times> real \<Rightarrow> string \<Rightarrow> DatasetValues \<Rightarrow>
     js_error + DatasetValues" where
  "layerStep pip dm point lid values =
     (case getLayerById dm lid of
        None \<Rightarrow> Inr values
      | Some layer \<Rightarrow>
          (case loadedData dm lid of
             None \<Rightarrow> Inr values
           | Some data \<Rightarrow>
               (let values1 = AList.update lid [] values;
                    spatial =
                      (case (sourceFormat layer = geojson, geojsonLayers dm lid) of
                         (True, Some fc) \<Rightarrow>
                           (case findFeature pip point fc of
                              Inl e \<Rightarrow> Inl e
                            | Inr None \<Rightarrow> Inr values1
                            | Inr (Some f) \<Rightarrow>
                                Inr (AList.update lid (featureValues layer f) values1))
                       | _ \<Rightarrow> Inr values1)
                in (case spatial of
                      Inl e \<Rightarrow> Inl e
                    | Inr values2 \<Rightarrow>
                        (case (sourceFormat layer = csv, data) of
                           (True, CsvData records) \<Rightarrow>
                             if records \<noteq> []
                             then Inr (AList.update lid (csvSummary records) values2)
                             else Inr values2
                         | _ \<Rightarrow> Inr values2)))))"

fun layerLoop ::
  "'g pip \<Rightarrow> 'g DatasetManager \<Rightarrow> real \<times> real \<Rightarrow> string list \<Rightarrow> DatasetValues \<Rightarrow>
     js_error + DatasetValues" where
  "layerLoop pip dm point [] values = Inr values"
| "layerLoop pip dm point (lid # lids) values =
     (case layerStep pip dm point lid values of
        Inl e \<Rightarrow> Inl e
      | Inr values' \<Rightarrow> layerLoop pip dm point lids values')"

text \<open>\<open>turf.point([lon, lat])\<close> is the pair \<open>(lon, lat)\<close>.\<close>

definition getValuesAtPoint ::
  "'g pip \<Rightarrow> 'g DatasetManager \<Rightarrow> real \<Rightarrow> real \<Rightarrow> string list \<Rightarrow> js_error + DatasetValues" where
  "getValuesAtPoint pip dm lat lon activeLayerIds =
     layerLoop pip dm (lon, lat) activeLayerIds []"

section \<open>DynamicWorldService\<close>

text \<open>
  One row of the regional land-cover file: a year and the area of each class. The areas
  are reals; the NaN that \<open>parseFloat\<close> gives for a malformed cell is outside the model.
\<close>

record DynamicWorldData =
  dw_year :: int
  dw_month :: string
  water :: real
  trees :: real
  grass :: real
  floodedVegetation :: real
  crops :: real
  shrubAndScrub :: real
  built :: real
  bare :: real
  snowAndIce :: real

text \<open>
  The repository holds two versions of the class. Both keep \<open>cachedData\<close> and
  \<open>dataLoaded\<close>; the version of \<open>src/services/DynamicWorldService.ts\<close> also keeps its
  own online flag.
\<close>

record DynamicWorldService =
  cachedData :: "DynamicWorldData list"
  dataLoaded :: bool
  dwOnline :: bool

text \<open>
  \<open>loadCachedData\<close>: nothing happens once the data is loaded; otherwise the file is
  fetched, and \<open>fetched\<close> is its parsed rows, or \<open>None\<close> when the response is not ok or
  the fetch throws.
\<close>

definition loadCachedData ::
  "DynamicWorldData list option \<Rightarrow> DynamicWorldService \<Rightarrow> DynamicWorldService" where
  "loadCachedData fetched svc =
     (if dataLoaded svc then svc
      else (case fetched of
              None \<Rightarrow> svc
            | Some rows \<Rightarrow> svc\<lparr> cachedData := rows, dataLoaded := True \<rparr>))"

text \<open>\<open>getRegionalStats(year?)\<close>; \<open>if (year)\<close> is false for a missing year and for 0.\<close>

definition getRegionalStats :: "DynamicWorldService \<Rightarrow> int option \<Rightarrow> DynamicWorldData option" where
  "getRegionalStats svc yr =
     (if \<not> dataLoaded svc \<or> cachedData svc = [] then None
      else (case yr of
              Some y \<Rightarrow>
                if y \<noteq> 0 then find (\<lambda>d. dw_year d = y) (cachedData svc)
                else Some (last (cachedData svc))
            | None \<Rightarrow> Some (last (cachedData svc))))"

record DynamicWorldPointData =
  pd_lat :: real
  pd_lon :: real
  pd_timestamp :: string
  landCoverClass :: string
  pd_confidence :: real
  probabilities :: "(string \<times> real) list"

text \<open>
  The search for the dominant class, shared by both versions:
  \<open>let dominantClass = 'Trees'; let max = 0; for (const [cls, v] of Object.entries(classes))
  if (v > max) { max = v; dominantClass = cls; }\<close>
\<close>

fun dominantLoop :: "(string \<times> real) list \<Rightarrow> string \<Rightarrow> real \<Rightarrow> string \<times> real" where
  "dominantLoop [] dominantClass maxv = (dominantClass, maxv)"
| "dominantLoop ((cls, v) # rest) dominantClass maxv =
     (if v > maxv then dominantLoop rest cls v else dominantLoop rest dominantClass maxv)"

text \<open>
  \<open>fetchPointData\<close> and \<open>isPointDataAvailable\<close> as in the version of the class that sits
  beside \<open>WeatherService\<close>: no point data, whatever the arguments.
\<close>

definition fetchPointData :: "real \<Rightarrow> real \<Rightarrow> string option \<Rightarrow> DynamicWorldPointData option" where
  "fetchPointData lat lon date = None"

definition isPointDataAvailable :: bool where
  "isPointDataAvailable = False"

text \<open>
  \<open>fetchPointData\<close> as in \<open>src/services/DynamicWorldService.ts\<close>: offline it returns
  \<open>null\<close>; online it turns the latest regional areas into probabilities of the point
  (``For now, we return estimated data based on regional statistics''). \<open>isoStr\<close> is
  \<open>new Date().toISOString()\<close>. With a total area of 0 the JavaScript divisions give NaN,
  which the model does not have: the model is this function on rows of positive total area.
\<close>

definition fetchPointDataEstimate ::
  "string \<Rightarrow> DynamicWorldService \<Rightarrow> real \<Rightarrow> real \<Rightarrow> string option \<Rightarrow>
     DynamicWorldPointData option" where
  "fetchPointDataEstimate isoStr svc lat lon date =
     (if \<not> dwOnline svc then None
      else (case getRegionalStats svc None of
              None \<Rightarrow> None
            | Some latestStats \<Rightarrow>
                (let classes =
                       [(''Water'', water latestStats), (''Trees'', trees latestStats),
                        (''Grass'', grass latestStats),
                        (''Flooded Vegetation'', floodedVegetation latestStats),
                        (''Crops'', crops latestStats),
                        (''Shrub and Scrub'', shrubAndScrub latestStats),
                        (''Built'', built latestStats), (''Bare'', bare latestStats),
                        (''Snow and Ice'', snowAndIce latestStats)];
                     total = foldl (\<lambda>a b. a + b) 0 (map snd classes);
                     probs = map (\<lambda>(cls, area). (cls, area / total)) classes;
                     dominant = dominantLoop probs ''Trees'' 0
                 in Some \<lparr> pd_lat = lat, pd_lon = lon,
                           pd_timestamp =
                             (case date of
                                None \<Rightarrow> isoStr
                              | Some d \<Rightarrow> if d \<noteq> [] then d else isoStr),
                           landCoverClass = fst dominant,
                           pd_confidence = snd dominant,
                           probabilities = probs \<rparr>)))"

section \<open>LocationDataService\<close>

subsection \<open>The result type\<close>

datatype admin_source = boundary_geojson | corestack_api | corestack_local

datatype confidence = verified | approximate

text \<open>
  The administrative block. Its optional string fields are JSON values, \<open>undefined\<close> when
  absent: the code copies them from parsed JSON without checking their type.
\<close>

record adminBlock =
  state :: jsval
  district :: jsval
  tehsil :: jsval
  village :: jsval
  block :: jsval
  source :: admin_source
  confidence :: confidence

datatype landCover_source = dynamicworld_regional | dynamicworld_point | unavailable

record regionalSummary =
  dominantClass :: string
  rs_trees :: real
  rs_crops :: real
  rs_built :: real
  rs_water :: real
  rs_shrubAndScrub :: real
  rs_grass :: real
  rs_bare :: real
  rs_year :: int

record landCoverBlock =
  regionalSummary :: "regionalSummary option"
  pointDataAvailable :: bool
  lc_source :: landCover_source
  lc_note :: "string option"

datatype watershed_source = ws_corestack_local | ws_corestack_api

record watershedBlock =
  mwsId :: string
  indicators :: "(string \<times> jsval) list"
  ws_source :: watershed_source

record LocationEnrichment =
  coordinates :: "real \<times> real"
  timestamp :: string
  admin :: "adminBlock option"
  landCover :: "landCoverBlock option"
  watershed :: "watershedBlock option"
  weather :: "WeatherData option"
  localData :: "DatasetValues option"
  isOnline :: bool
  errors :: "string list"
  warnings :: "string list"

subsection \<open>Boundaries and local blocks\<close>

record 'g BoundaryData =
  bd_id :: string
  bd_geojson :: "'g feature list option"
  bd_loaded :: bool

record coreStackBlock =
  cb_state :: string
  cb_district :: string
  cb_block :: string
  cb_block_id :: "string option"

record localCoreStack =
  blocks :: "coreStackBlock list"
  lcsLoaded :: bool

record 'g LocationDataService =
  datasetManager :: "'g DatasetManager"
  initialized :: bool
  boundaries :: "string \<Rightarrow> 'g BoundaryData option"
  localCoreStackData :: localCoreStack

text \<open>The service that the constructor builds: nothing is loaded yet.\<close>

definition newLocationDataService :: "'g LocationDataService" where
  "newLocationDataService =
     \<lparr> datasetManager = newDatasetManager,
       initialized = False,
       boundaries = map_of
         [(''dakshina_kannada'',
             \<lparr> bd_id = ''dakshina_kannada'', bd_geojson = None, bd_loaded = False \<rparr>),
          (''western_ghats'',
             \<lparr> bd_id = ''western_ghats'', bd_geojson = None, bd_loaded = False \<rparr>)],
       localCoreStackData = \<lparr> blocks = [], lcsLoaded = False \<rparr> \<rparr>"

text \<open>The result of \<open>isPointInBoundary\<close>: \<open>{ inside, properties? }\<close>.\<close>

record pointCheck =
  inside :: bool
  pc_properties :: "props option"

text \<open>
  The loop of \<open>isPointInBoundary\<close>: a throw of turf is caught and the loop goes on with
  the next feature; \<open>feature.properties || {}\<close> is the empty object for \<open>null\<close>.
\<close>

fun boundaryLoop :: "'g pip \<Rightarrow> real \<times> real \<Rightarrow> 'g feature list \<Rightarrow> pointCheck" where
  "boundaryLoop pip point [] = \<lparr> inside = False, pc_properties = None \<rparr>"
| "boundaryLoop pip point (f # fs) =
     (if isPolygonal f then
        (case pip point f of
           Inr True \<Rightarrow>
             \<lparr> inside = True,
               pc_properties = Some (case properties f of None \<Rightarrow> [] | Some ps \<Rightarrow> ps) \<rparr>
         | _ \<Rightarrow> boundaryLoop pip point fs)
      else boundaryLoop pip point fs)"

definition isPointInBoundary ::
  "'g pip \<Rightarrow> (string \<Rightarrow> 'g BoundaryData option) \<Rightarrow> real \<Rightarrow> real \<Rightarrow> string \<Rightarrow> pointCheck" where
  "isPointInBoundary pip bnds lat lon boundaryId =
     (case bnds boundaryId of
        None \<Rightarrow> \<lparr> inside = False, pc_properties = None \<rparr>
      | Some boundary \<Rightarrow>
          (case bd_geojson boundary of
             None \<Rightarrow> \<lparr> inside = False, pc_properties = None \<rparr>
           | Some fc \<Rightarrow>
               if \<not> bd_loaded boundary then \<lparr> inside = False, pc_properties = None \<rparr>
               else boundaryLoop pip (lon, lat) fc))"

text \<open>
  \<open>s.toLowerCase().replace(/\s+/g, ' ').trim()\<close> on ASCII text: the letters A to Z are
  lowered, every run of white space becomes one blank, and the blanks at both ends go.
\<close>

definition toLowerChar :: "char \<Rightarrow> char" where
  "toLowerChar c =
     (case map_of (zip ''ABCDEFGHIJKLMNOPQRSTUVWXYZ'' ''abcdefghijklmnopqrstuvwxyz'') c of
        None \<Rightarrow> c | Some l \<Rightarrow> l)"

fun collapseFrom :: "bool \<Rightarrow> string \<Rightarrow> string" where
  "collapseFrom inRun [] = []"
| "collapseFrom inRun (c # cs) =
     (if isSpace c then
        (if inRun then collapseFrom True cs else CHR '' '' # collapseFrom True cs)
      else c # collapseFrom False cs)"

definition collapseSpaces :: "string \<Rightarrow> string" where
  "collapseSpaces s = collapseFrom False s"

definition normalizeDistrict :: "string \<Rightarrow> string" where
  "normalizeDistrict s = trim (collapseSpaces (map toLowerChar s))"

text \<open>
  \<open>getLocalBlockData(district)\<close>. The argument is what \<open>getAdminData\<close> read from the
  boundary properties; \<open>district.toLowerCase()\<close> throws a TypeError unless it is a string.
\<close>

definition getLocalBlockData ::
  "localCoreStack \<Rightarrow> jsval \<Rightarrow> js_error + (string \<times> string option) option" where
  "getLocalBlockData lcs districtArg =
     (if \<not> lcsLoaded lcs then Inr None
      else (case districtArg of
              JStr d \<Rightarrow>
                Inr (map_option (\<lambda>b. (cb_block b, cb_block_id b))
                       (find (\<lambda>b. normalizeDistrict (cb_district b) = normalizeDistrict d)
                          (blocks lcs)))
            | JUndefined \<Rightarrow>
                Inl (TypeError ''Cannot read properties of undefined (reading 'toLowerCase')'')
            | JNull \<Rightarrow>
                Inl (TypeError ''Cannot read properties of null (reading 'toLowerCase')'')
            | _ \<Rightarrow> Inl (TypeError ''district.toLowerCase is not a function'')))"

text \<open>\<open>a || b\<close>\<close>

definition jsOr :: "jsval \<Rightarrow> jsval \<Rightarrow> jsval" where
  "jsOr a b = (if truthy a then a else b)"

subsection \<open>Requests to the CoreStack API\<close>

text \<open>
  \<open>CoreStackService.request\<close>: it throws when the service is offline or has no key;
  otherwise it rethrows the TypeError that \<open>fetch\<close> throws on a network failure, or
  throws an error with the message of the failed response
  (\<open>`API error: ${response.status}`\<close> when the body has none), or returns the parsed body.
\<close>

definition request :: "CoreStackService \<Rightarrow> 'a http \<Rightarrow> js_error + 'a" where
  "request svc answer =
     (if \<not> csOnline svc then Inl (Error ''Offline - cannot access CoreStack API'')
      else if \<not> hasApiKey svc then Inl (Error ''API key not configured'')
      else (case answer of
              NetworkError m \<Rightarrow> Inl (TypeError m)
            | HttpError status m \<Rightarrow>
                Inl (Error (if m \<noteq> [] then m else ''API error: '' @ digitsOf status))
            | HttpOk body \<Rightarrow> Inr body))"

text \<open>The fields of \<open>AdminDetails\<close> that \<open>getAdminData\<close> reads.\<close>

record AdminDetails =
  state_name :: jsval
  district_name :: jsval
  tehsil_name :: jsval

record KYLIndicator =
  indicator_name :: string
  ki_value :: jsval

subsection \<open>The five branches\<close>

text \<open>\<open>getLocalData\<close>: the values of all layers of the manifest.\<close>

definition getLocalData ::
  "'g pip \<Rightarrow> 'g LocationDataService \<Rightarrow> real \<Rightarrow> real \<Rightarrow> js_error + DatasetValues option" where
  "getLocalData pip lds lat lon =
     (case getValuesAtPoint pip (datasetManager lds) lat lon
             (map layerId (getLayers (datasetManager lds))) of
        Inl e \<Rightarrow> Inl e
      | Inr vals \<Rightarrow> Inr (Some vals))"

text \<open>
  The first step of \<open>getAdminData\<close>: the API is asked when the caller is online and a
  key is present; \<open>answer\<close> is what the network gives for this request. A thrown error is
  caught and logged, and like an empty answer it leaves the result to the boundaries.
\<close>

definition remoteAdmin :: "CoreStackService \<Rightarrow> AdminDetails option http \<Rightarrow> bool \<Rightarrow> adminBlock option" where
  "remoteAdmin cs answer online =
     (if online \<and> hasApiKey cs then
        (case request cs answer of
           Inr (Some details) \<Rightarrow>
             if truthy (state_name details) \<or> truthy (district_name details)
             then Some \<lparr> state = state_name details, district = district_name details,
                         tehsil = tehsil_name details, village = JUndefined, block = JUndefined,
                         source = corestack_api, confidence = verified \<rparr>
             else None
         | _ \<Rightarrow> None)
      else None)"

text \<open>
  \<open>getAdminData\<close> of the first \<open>LocationDataService\<close> in the file: the API, then the
  Dakshina Kannada boundary, then the Western Ghats boundary, then \<open>null\<close>. The call of
  \<open>getLocalBlockData\<close> is outside every \<open>try\<close>: its TypeError rejects the promise.
\<close>

definition getAdminData ::
  "'g pip \<Rightarrow> 'g LocationDataService \<Rightarrow> CoreStackService \<Rightarrow> AdminDetails option http \<Rightarrow>
     real \<Rightarrow> real \<Rightarrow> bool \<Rightarrow> js_error + adminBlock option" where
  "getAdminData pip lds cs answer lat lon online =
     (case remoteAdmin cs answer online of
        Some remote \<Rightarrow> Inr (Some remote)
      | None \<Rightarrow>
          (let dkCheck = isPointInBoundary pip (boundaries lds) lat lon ''dakshina_kannada''
           in (case (inside dkCheck, pc_properties dkCheck) of
                 (True, Some ps) \<Rightarrow>
                   (let stateProp = jsOr (getProp ps ''ST_NM'') (getProp ps ''state'');
                        districtProp = jsOr (getProp ps ''DISTRICT'') (getProp ps ''district'')
                    in (case getLocalBlockData (localCoreStackData lds) districtProp of
                          Inl e \<Rightarrow> Inl e
                        | Inr localBlock \<Rightarrow>
                            Inr (Some
                              \<lparr> state = jsOr stateProp (JStr ''Karnataka''),
                                district = jsOr districtProp (JStr ''Dakshina Kannada''),
                                tehsil = JUndefined, village = JUndefined,
                                block = (case localBlock of
                                           None \<Rightarrow> JUndefined
                                         | Some (b, bid) \<Rightarrow> JStr b),
                                source = boundary_geojson, confidence = verified \<rparr>)))
               | _ \<Rightarrow>
                   (let wgCheck = isPointInBoundary pip (boundaries lds) lat lon ''western_ghats''
                    in if inside wgCheck
                       then Inr (Some
                              \<lparr> state = JStr ''Within Western Ghats'', district = JUndefined,
                                tehsil = JUndefined, village = JUndefined, block = JUndefined,
                                source = boundary_geojson, confidence = verified \<rparr>)
                       else Inr None))))"

definition unavailableLandCover :: landCoverBlock where
  "unavailableLandCover =
     \<lparr> regionalSummary = None, pointDataAvailable = False, lc_source = unavailable,
       lc_note = Some ''No LULC data available for this location'' \<rparr>"

text \<open>
  The sum of all nine areas of a row, and the eight percentages of \<open>classes\<close> in the
  order of the object literal (snow and ice has none).
\<close>

definition totalArea :: "DynamicWorldData \<Rightarrow> real" where
  "totalArea latestStats =
     water latestStats + trees latestStats + grass latestStats +
     floodedVegetation latestStats + crops latestStats +
     shrubAndScrub latestStats + built latestStats +
     bare latestStats + snowAndIce latestStats"

definition classPercentages :: "DynamicWorldData \<Rightarrow> real \<Rightarrow> (string \<times> real) list" where
  "classPercentages latestStats tot =
     [(''Water'', water latestStats / tot * 100),
      (''Trees'', trees latestStats / tot * 100),
      (''Grass'', grass latestStats / tot * 100),
      (''Flooded Vegetation'', floodedVegetation latestStats / tot * 100),
      (''Crops'', crops latestStats / tot * 100),
      (''Shrub and Scrub'', shrubAndScrub latestStats / tot * 100),
      (''Built'', built latestStats / tot * 100),
      (''Bare'', bare latestStats / tot * 100)]"

text \<open>The block returned when the regional row has a positive total area.\<close>

definition regionalLandCover :: "DynamicWorldData \<Rightarrow> real \<Rightarrow> landCoverBlock" where
  "regionalLandCover latestStats tot =
     \<lparr> regionalSummary = Some
         \<lparr> dominantClass = fst (dominantLoop (classPercentages latestStats tot) ''Trees'' 0),
           rs_trees = trees latestStats / tot * 100,
           rs_crops = crops latestStats / tot * 100,
           rs_built = built latestStats / tot * 100,
           rs_water = water latestStats / tot * 100,
           rs_shrubAndScrub = shrubAndScrub latestStats / tot * 100,
           rs_grass = grass latestStats / tot * 100,
           rs_bare = bare latestStats / tot * 100,
           rs_year = dw_year latestStats \<rparr>,
       pointDataAvailable = False,
       lc_source = dynamicworld_regional,
       lc_note = Some (''Regional average for Western Ghats. Point-specific LULC '' @
                       ''requires Google Earth Engine API integration.'') \<rparr>"

text \<open>
  \<open>getLandCoverData\<close>: the regional file is loaded if it was not, and the latest row is
  turned into percentages of the total area. Nothing in it depends on the coordinates.
\<close>

definition getLandCoverData ::
  "DynamicWorldData list option \<Rightarrow> DynamicWorldService \<Rightarrow>
     landCoverBlock option \<times> DynamicWorldService" where
  "getLandCoverData fetched dw =
     (let dw' = loadCachedData fetched dw
      in (case getRegionalStats dw' None of
            None \<Rightarrow> (Some unavailableLandCover, dw')
          | Some latestStats \<Rightarrow>
              if totalArea latestStats > 0
              then (Some (regionalLandCover latestStats (totalArea latestStats)), dw')
              else (Some unavailableLandCover, dw')))"

text \<open>\<open>indicatorMap[ind.indicator_name] = ind.value\<close> for every indicator.\<close>

definition indicatorMap :: "KYLIndicator list \<Rightarrow> (string \<times> jsval) list" where
  "indicatorMap inds =
     foldl (\<lambda>m ind. AList.update (indicator_name ind) (ki_value ind) m) [] inds"

text \<open>
  \<open>getWatershedData\<close>: only the API can supply it. \<open>mwsAnswer\<close> is the answer to the
  lookup of the watershed id (\<open>None\<close> in the body when it carries no id), \<open>kylAnswer\<close>
  the answer to the lookup of the indicators of an id; a failure of the first gives
  \<open>null\<close>, a failure of the second an empty list of indicators.
\<close>

definition getWatershedData ::
  "CoreStackService \<Rightarrow> string option http \<Rightarrow> (string \<Rightarrow> KYLIndicator list http) \<Rightarrow> bool \<Rightarrow>
     watershedBlock option" where
  "getWatershedData cs mwsAnswer kylAnswer online =
     (if \<not> online \<or> \<not> hasApiKey cs then None
      else (case request cs mwsAnswer of
              Inr (Some mws) \<Rightarrow>
                if mws \<noteq> [] then
                  (let inds = (case request cs (kylAnswer mws) of Inl e \<Rightarrow> [] | Inr is \<Rightarrow> is)
                   in Some \<lparr> mwsId = mws, indicators = indicatorMap inds,
                             ws_source = ws_corestack_api \<rparr>)
                else None
            | _ \<Rightarrow> None))"

subsection \<open>\<open>enrichLocation\<close>\<close>

text \<open>What \<open>Promise.allSettled\<close> reports for one promise.\<close>

datatype 'a settled = Fulfilled 'a | Rejected js_error

definition settle :: "js_error + 'a \<Rightarrow> 'a settled" where
  "settle r = (case r of Inl e \<Rightarrow> Rejected e | Inr v \<Rightarrow> Fulfilled v)"

text \<open>
  \<open>if (p.status === 'fulfilled' && p.value) result.x = p.value\<close>: the block of a branch.
\<close>

definition blockOf :: "'a option settled \<Rightarrow> 'a option" where
  "blockOf p = (case p of Fulfilled (Some v) \<Rightarrow> Some v | _ \<Rightarrow> None)"

text \<open>
  \<open>else if (p.status === 'rejected') result.errors.push(`label: ${p.reason}`)\<close>: the
  diagnostics of a branch.
\<close>

definition errorOf :: "string \<Rightarrow> 'a option settled \<Rightarrow> string list" where
  "errorOf label p = (case p of Rejected reason \<Rightarrow> [label @ errToString reason] | _ \<Rightarrow> [])"

text \<open>
  The part of \<open>enrichLocation\<close> after \<open>Promise.allSettled\<close>: the result is built from the
  five outcomes. The weather outcome has no \<open>else\<close> branch.
\<close>

definition assemble ::
  "real \<Rightarrow> real \<Rightarrow> string \<Rightarrow> bool \<Rightarrow>
   DatasetValues option settled \<Rightarrow> adminBlock option settled \<Rightarrow> landCoverBlock option settled \<Rightarrow>
   watershedBlock option settled \<Rightarrow> WeatherData option settled \<Rightarrow> LocationEnrichment" where
  "assemble lat lon isoStr online localP adminP landCoverP watershedP weatherP =
     \<lparr> coordinates = (lat, lon),
       timestamp = isoStr,
       admin = blockOf adminP,
       landCover = blockOf landCoverP,
       watershed = blockOf watershedP,
       weather = blockOf weatherP,
       localData = blockOf localP,
       isOnline = online,
       errors = errorOf ''Local data: '' localP @ errorOf ''Admin data: '' adminP @
                errorOf ''Land cover: '' landCoverP @ errorOf ''Watershed: '' watershedP,
       warnings = [] \<rparr>"

text \<open>
  Everything outside the program that one call of \<open>enrichLocation\<close> meets: turf, the
  files and the cache behind the dataset manager, the answers to the fetches of a
  boundary file (\<open>None\<close> in the body when it is no JSON) and of the blocks file (its rows
  as \<open>loadLocalCoreStackData\<close> parses them), the answers of the CoreStack API, the
  regional land-cover file, the surroundings of the weather query, and
  \<open>new Date().toISOString()\<close>.
\<close>

record 'g world =
  booleanPointInPolygon :: "'g pip"
  datasets :: "'g datasetEnv"
  boundaryFile :: "string \<Rightarrow> 'g feature list option http"
  blocksFile :: "coreStackBlock list http"
  adminAnswer :: "real \<Rightarrow> real \<Rightarrow> AdminDetails option http"
  mwsAnswer :: "real \<Rightarrow> real \<Rightarrow> string option http"
  kylAnswer :: "string \<Rightarrow> KYLIndicator list http"
  dwFile :: "DynamicWorldData list option"
  weatherWorld :: weatherEnv
  isoDate :: string

text \<open>
  The \<open>LocationDataService\<close> and the three module-level services it calls.
\<close>

record 'g services =
  locationData :: "'g LocationDataService"
  coreStackService :: CoreStackService
  dynamicWorldService :: DynamicWorldService
  weatherService :: WeatherService

text \<open>
  The five promises that \<open>enrichLocation\<close> hands to \<open>Promise.allSettled\<close>. Only the
  local-data and the administrative branch can reject; the land-cover, the watershed and
  the weather branch catch their own failures.
\<close>

definition localBranch :: "'g world \<Rightarrow> 'g services \<Rightarrow> real \<Rightarrow> real \<Rightarrow> DatasetValues option settled" where
  "localBranch w st lat lon = settle (getLocalData (booleanPointInPolygon w) (locationData st) lat lon)"

definition adminBranch :: "'g world \<Rightarrow> 'g services \<Rightarrow> real \<Rightarrow> real \<Rightarrow> bool \<Rightarrow> adminBlock option settled" where
  "adminBranch w st lat lon online =
     settle (getAdminData (booleanPointInPolygon w) (locationData st) (coreStackService st)
               (adminAnswer w lat lon) lat lon online)"

definition landCoverBranch :: "'g world \<Rightarrow> 'g services \<Rightarrow> landCoverBlock option settled" where
  "landCoverBranch w st = Fulfilled (fst (getLandCoverData (dwFile w) (dynamicWorldService st)))"

definition watershedBranch :: "'g world \<Rightarrow> 'g services \<Rightarrow> real \<Rightarrow> real \<Rightarrow> bool \<Rightarrow> watershedBlock option settled" where
  "watershedBranch w st lat lon online =
     Fulfilled (getWatershedData (coreStackService st) (mwsAnswer w lat lon) (kylAnswer w) online)"

definition weatherBranch :: "'g world \<Rightarrow> 'g services \<Rightarrow> real \<Rightarrow> real \<Rightarrow> bool \<Rightarrow> WeatherData option settled" where
  "weatherBranch w st lat lon online =
     Fulfilled (if online then fst (fst (getWeather (weatherWorld w) lat lon (weatherService st)))
                else None)"

text \<open>
  \<open>loadBoundaries\<close>: the two boundary files are fetched in the order of \<open>boundaryPaths\<close>;
  \<open>files\<close> gives the answer to the fetch of a path. A file that is fetched and parsed
  becomes the boundary, marked as loaded; a failed fetch, a response that is not ok and a
  body that is no JSON are caught or skipped and leave the boundary as it is.
\<close>

definition loadBoundary ::
  "(string \<Rightarrow> 'g feature list option http) \<Rightarrow> string \<Rightarrow> string \<Rightarrow>
     (string \<Rightarrow> 'g BoundaryData option) \<Rightarrow> (string \<Rightarrow> 'g BoundaryData option)" where
  "loadBoundary files bid path bnds =
     (case files path of
        HttpOk (Some fc) \<Rightarrow>
          bnds(bid \<mapsto> \<lparr> bd_id = bid, bd_geojson = Some fc, bd_loaded = True \<rparr>)
      | _ \<Rightarrow> bnds)"

definition loadBoundaries ::
  "(string \<Rightarrow> 'g feature list option http) \<Rightarrow>
     (string \<Rightarrow> 'g BoundaryData option) \<Rightarrow> (string \<Rightarrow> 'g BoundaryData option)" where
  "loadBoundaries files bnds =
     loadBoundary files ''western_ghats'' ''/data/boundaries/western_ghats_boundary.geojson''
       (loadBoundary files ''dakshina_kannada''
          ''/data/boundaries/dakshina_kannada_boundary.geojson'' bnds)"

text \<open>
  \<open>loadLocalCoreStackData\<close>: \<open>file\<close> is the answer to the fetch of the blocks file. Its
  rows replace the blocks, and the data counts as loaded; a failed fetch is caught and a
  response that is not ok is skipped.
\<close>

definition loadLocalCoreStackData ::
  "coreStackBlock list http \<Rightarrow> localCoreStack \<Rightarrow> localCoreStack" where
  "loadLocalCoreStackData file lcs =
     (case file of
        HttpOk rows \<Rightarrow> \<lparr> blocks = rows, lcsLoaded = True \<rparr>
      | _ \<Rightarrow> lcs)"

text \<open>
  \<open>LocationDataService.initialize\<close>: nothing happens once the service is initialised.
  Otherwise the dataset manager, the boundaries, the blocks and the regional land-cover
  file are loaded in this order. The last three catch their own failures; a rejection of
  \<open>DatasetManager.initialize\<close> is not caught, and \<open>initialized\<close> is set only at the end.
\<close>

definition initialize :: "'g world \<Rightarrow> 'g services \<Rightarrow> js_error + 'g services" where
  "initialize w st =
     (if initialized (locationData st) then Inr st
      else (case DatasetManager_initialize (datasets w) (datasetManager (locationData st)) of
              Inl e \<Rightarrow> Inl e
            | Inr dm \<Rightarrow>
                Inr (st\<lparr> locationData :=
                            (locationData st)
                              \<lparr> datasetManager := dm,
                                boundaries :=
                                  loadBoundaries (boundaryFile w) (boundaries (locationData st)),
                                localCoreStackData :=
                                  loadLocalCoreStackData (blocksFile w)
                                    (localCoreStackData (locationData st)),
                                initialized := True \<rparr>,
                         dynamicWorldService :=
                           loadCachedData (dwFile w) (dynamicWorldService st) \<rparr>)))"

text \<open>
  \<open>enrichLocation\<close> after \<open>await this.initialize()\<close>: the five branches are settled and
  the result is assembled. It comes with the services afterwards: the land-cover branch
  may have loaded the regional file, the weather branch may have filled its cache.
\<close>

definition enrichInitialized ::
  "'g world \<Rightarrow> 'g services \<Rightarrow> real \<Rightarrow> real \<Rightarrow> bool \<Rightarrow> LocationEnrichment \<times> 'g services" where
  "enrichInitialized w st lat lon online =
     (assemble lat lon (isoDate w) online
        (localBranch w st lat lon)
        (adminBranch w st lat lon online)
        (landCoverBranch w st)
        (watershedBranch w st lat lon online)
        (weatherBranch w st lat lon online),
      st\<lparr> dynamicWorldService := snd (getLandCoverData (dwFile w) (dynamicWorldService st)),
          weatherService := (if online
                             then snd (getWeather (weatherWorld w) lat lon (weatherService st))
                             else weatherService st) \<rparr>)"

text \<open>
  \<open>enrichLocation\<close>: \<open>await this.initialize()\<close> stands before the result is created and
  outside every \<open>try\<close>, so a rejection of \<open>initialize\<close> rejects the call; otherwise the
  call resolves with the assembled result.
\<close>

definition enrichLocation ::
  "'g world \<Rightarrow> 'g services \<Rightarrow> real \<Rightarrow> real \<Rightarrow> bool \<Rightarrow>
     js_error + LocationEnrichment \<times> 'g services" where
  "enrichLocation w st lat lon online =
     (case initialize w st of
        Inl e \<Rightarrow> Inl e
      | Inr st0 \<Rightarrow> Inr (enrichInitialized w st0 lat lon online))"

subsection \<open>The second \<open>LocationDataService\<close> of the file\<close>

text \<open>
  The file holds a second version of the class. Its administrative block has the source
  \<open>'local' | 'corestack'\<close> and no confidence, and its \<open>getAdminData\<close> falls back from the
  API to two boxes of coordinates (``Simplified boundary check using approximate bounding
  box''). Its \<open>enrichLocation\<close> stores a fulfilled non-null value of it as \<open>result.admin\<close>
  in the same way.
\<close>

datatype admin_source2 = src_local | src_corestack

record adminBlock2 =
  ab2_state :: jsval
  ab2_district :: jsval
  ab2_tehsil :: jsval
  ab2_source :: admin_source2

definition getAdminData2 ::
  "CoreStackService \<Rightarrow> AdminDetails option http \<Rightarrow> real \<Rightarrow> real \<Rightarrow> bool \<Rightarrow>
     js_error + adminBlock2 option" where
  "getAdminData2 cs answer lat lon online =
     (let remote =
            (if online \<and> hasApiKey cs then
               (case request cs answer of
                  Inr (Some details) \<Rightarrow>
                    if truthy (state_name details) \<or> truthy (district_name details)
                    then Some \<lparr> ab2_state = state_name details,
                                ab2_district = district_name details,
                                ab2_tehsil = tehsil_name details,
                                ab2_source = src_corestack \<rparr>
                    else None
                | _ \<Rightarrow> None)
             else None)
      in (case remote of
            Some r \<Rightarrow> Inr (Some r)
          | None \<Rightarrow>
              (let isInWesternGhats = (lat \<ge> 8 \<and> lat \<le> 21 \<and> lon \<ge> 73 \<and> lon \<le> 78)
               in if isInWesternGhats then
                    (let isInDK = (lat \<ge> 125 / 10 \<and> lat \<le> 135 / 10 \<and>
                                   lon \<ge> 745 / 10 \<and> lon \<le> 758 / 10)
                     in if isInDK
                        then Inr (Some \<lparr> ab2_state = JStr ''Karnataka'',
                                         ab2_district = JStr ''Dakshina Kannada (estimated)'',
                                         ab2_tehsil = JUndefined, ab2_source = src_local \<rparr>)
                        else Inr (Some \<lparr> ab2_state = JStr ''Western Ghats Region'',
                                         ab2_district = JUndefined,
                                         ab2_tehsil = JUndefined, ab2_source = src_local \<rparr>))
                  else Inr None)))"

section \<open>Sample data\<close>

text \<open>Concrete inputs on which the theorems below are run.\<close>

subsection \<open>Sample weather\<close>

text \<open>
  One answer of the weather API, the surroundings of a query at given clock readings, and
  a service before and after its first query at (12.9, 74.85).
\<close>

definition sampleRaw :: rawWeather where
  "sampleRaw =
     \<lparr> rw_current = \<lparr> temperature_2m = 29, relative_humidity_2m = 70, rc_precipitation = 0,
          wind_speed_10m = 12, wind_direction_10m = 270, weather_code = 2, is_day = 1 \<rparr>,
       rw_daily = [\<lparr> rd_time = ''2026-01-01'', temperature_2m_max = 31,
          temperature_2m_min = 23, precipitation_sum = 0,
          precipitation_probability_max = 10, rd_weather_code = 61 \<rparr>] \<rparr>"

definition sampleEnv :: "int \<Rightarrow> rawWeather option http \<Rightarrow> int \<Rightarrow> weatherEnv" where
  "sampleEnv t r t' =
     \<lparr> nowCheck = t, response = r, isoNow = ''2026-01-01T00:00:00.000Z'', nowStore = t' \<rparr>"

definition freshService :: WeatherService where
  "freshService = \<lparr> wsOnline = True, cache = (\<lambda>k. None) \<rparr>"

definition cachedService :: WeatherService where
  "cachedService =
     freshService\<lparr> cache := (cache freshService)(cacheKey (129 / 10) (7485 / 100) \<mapsto>
        \<lparr> ce_data = toWeatherData sampleRaw ''2026-01-01T00:00:00.000Z'',
          expiry = 1800500 \<rparr>) \<rparr>"

definition sampleEvents :: "weatherEvent list" where
  "sampleEvents = [GoOffline, Query (sampleEnv 1000 (HttpOk None) 1000) 13 75, GoOnline]"

subsection \<open>Sample layers\<close>

text \<open>
  For the sample data a geometry is an axis-parallel rectangle
  \<open>(west, south, east, north)\<close>, and the point-in-polygon test is the test against it.
\<close>

type_synonym rect = "real \<times> real \<times> real \<times> real"

definition rectPip :: "rect pip" where
  "rectPip point f =
     (case (point, geometry f) of
        ((lon, lat), (west, south, east, north)) \<Rightarrow>
          Inr (west \<le> lon \<and> lon \<le> east \<and> south \<le> lat \<and> lat \<le> north))"

definition districtFeatures :: "rect feature list" where
  "districtFeatures =
     [\<lparr> geometryType = Point, geometry = (74, 12, 76, 14),
        properties = Some [(''name'', JStr ''Mangaluru'')] \<rparr>,
      \<lparr> geometryType = Polygon, geometry = (76, 12, 77, 13),
        properties = Some [(''DISTRICT'', JStr ''Kodagu'')] \<rparr>,
      \<lparr> geometryType = MultiPolygon, geometry = (74, 12, 76, 14),
        properties = Some [(''DISTRICT'', JStr ''Dakshina Kannada''),
                           (''ST_NM'', JStr ''Karnataka''), (''area_km2'', JNum 4866)] \<rparr>,
      \<lparr> geometryType = Polygon, geometry = (74, 12, 75, 13),
        properties = Some [(''DISTRICT'', JStr ''Udupi'')] \<rparr>]"

definition treeCoverRecords :: "props list" where
  "treeCoverRecords =
     [[(''year'', JNum 2018), (''tree_cover_pct'', JNum 61)],
      [(''year'', JNum 2020), (''tree_cover_pct'', JNum 58)],
      [(''year'', JNum 2020), (''tree_cover_pct'', JNum 57)],
      [(''year'', JNum 2018), (''tree_cover_pct'', JNum 60)],
      [(''year'', JNum 2020), (''tree_cover_pct'', JNum 56)],
      [(''year'', JNum 2020), (''tree_cover_pct'', JNum 55)]]"

definition sampleManager :: "rect DatasetManager" where
  "sampleManager =
     \<lparr> layers =
         [\<lparr> layerId = ''districts'', sourcePath = ''/data/districts.geojson'',
            sourceFormat = geojson,
            queryFields = Some [''DISTRICT'', ''population''], enabled = True \<rparr>,
          \<lparr> layerId = ''districts_all'', sourcePath = ''/data/districts_all.geojson'',
            sourceFormat = geojson,
            queryFields = None, enabled = True \<rparr>,
          \<lparr> layerId = ''tree_cover_glc'', sourcePath = ''/data/tree_cover_glc.csv'',
            sourceFormat = csv,
            queryFields = Some [''year'', ''tree_cover_pct''], enabled = True \<rparr>,
          \<lparr> layerId = ''built_area_glc'', sourcePath = ''/data/built_area_glc.csv'',
            sourceFormat = csv,
            queryFields = Some [''year'', ''built_pct''], enabled = True \<rparr>],
       loadedData = map_of
         [(''districts'', GeoJSONData districtFeatures),
          (''districts_all'', GeoJSONData districtFeatures),
          (''tree_cover_glc'', CsvData treeCoverRecords)],
       geojsonLayers = map_of
         [(''districts'', districtFeatures), (''districts_all'', districtFeatures)] \<rparr>"

text \<open>
  A manager with the default manifest that has loaded the file of its
  \<open>dakshina_kannada_boundary\<close> layer, the layer that declares \<open>fields: []\<close>: one polygon
  around the query point of the scenarios.
\<close>

definition boundaryFeatures :: "rect feature list" where
  "boundaryFeatures =
     [\<lparr> geometryType = Polygon, geometry = (74, 12, 76, 14),
        properties = Some [(''DISTRICT'', JStr ''Dakshina Kannada''),
                           (''ST_NM'', JStr ''Karnataka'')] \<rparr>]"

definition boundaryManager :: "rect DatasetManager" where
  "boundaryManager =
     \<lparr> layers = DEFAULT_MANIFEST,
       loadedData = map_of [(''dakshina_kannada_boundary'', GeoJSONData boundaryFeatures)],
       geojsonLayers = map_of [(''dakshina_kannada_boundary'', boundaryFeatures)] \<rparr>"

definition boundaryValues :: DatasetValues where
  "boundaryValues = [(''dakshina_kannada_boundary'', [])]"

definition sampleLayerIds :: "string list" where
  "sampleLayerIds =
     [''districts'', ''districts_all'', ''tree_cover_glc'', ''built_area_glc'', ''unknown_layer'']"

text \<open>The results of the two sample queries.\<close>

definition sampleValues :: DatasetValues where
  "sampleValues =
     [(''districts'',
         [(''DISTRICT'', Val (JStr ''Dakshina Kannada'')), (''population'', Val JUndefined)]),
      (''districts_all'',
         [(''DISTRICT'', Val (JStr ''Dakshina Kannada'')), (''ST_NM'', Val (JStr ''Karnataka'')),
          (''area_km2'', Val (JNum 4866))]),
      (''tree_cover_glc'',
         [(''_source'', Val (JStr ''csv_summary'')), (''_year'', Val (JNum 2020)),
          (''_recordCount'', Val (JNum 4)),
          (''_sample'', Recs [[(''year'', JNum 2020), (''tree_cover_pct'', JNum 58)],
                              [(''year'', JNum 2020), (''tree_cover_pct'', JNum 57)],
                              [(''year'', JNum 2020), (''tree_cover_pct'', JNum 56)]])])]"

definition sampleValuesFar :: DatasetValues where
  "sampleValuesFar =
     [(''districts'', []),
      (''districts_all'', []),
      (''tree_cover_glc'',
         [(''_source'', Val (JStr ''csv_summary'')), (''_year'', Val (JNum 2020)),
          (''_recordCount'', Val (JNum 4)),
          (''_sample'', Recs [[(''year'', JNum 2020), (''tree_cover_pct'', JNum 58)],
                              [(''year'', JNum 2020), (''tree_cover_pct'', JNum 57)],
                              [(''year'', JNum 2020), (''tree_cover_pct'', JNum 56)]])])]"

subsection \<open>Sample services and worlds\<close>

text \<open>The query point of the scenarios, (12.90, 74.85).\<close>

definition queryLat :: real where
  "queryLat = 129 / 10"

definition queryLon :: real where
  "queryLon = 7485 / 100"

text \<open>
  Two boundary files for Dakshina Kannada, both with one polygon around (12.9, 74.85):
  in the first the polygon names its district and state, in the second it carries only a
  \<open>name\<close>. The Western Ghats boundary is one larger polygon.
\<close>

definition dkNamed :: "rect BoundaryData" where
  "dkNamed =
     \<lparr> bd_id = ''dakshina_kannada'',
       bd_geojson = Some [\<lparr> geometryType = Polygon, geometry = (74, 12, 76, 14),
                            properties = Some [(''DISTRICT'', JStr ''Dakshina Kannada''),
                                               (''ST_NM'', JStr ''Karnataka'')] \<rparr>],
       bd_loaded = True \<rparr>"

definition dkUnnamed :: "rect BoundaryData" where
  "dkUnnamed =
     \<lparr> bd_id = ''dakshina_kannada'',
       bd_geojson = Some [\<lparr> geometryType = Polygon, geometry = (74, 12, 76, 14),
                            properties = Some [(''name'', JStr ''Dakshina Kannada'')] \<rparr>],
       bd_loaded = True \<rparr>"

definition wgBoundary :: "rect BoundaryData" where
  "wgBoundary =
     \<lparr> bd_id = ''western_ghats'',
       bd_geojson = Some [\<lparr> geometryType = MultiPolygon, geometry = (73, 8, 78, 21),
                            properties = None \<rparr>],
       bd_loaded = True \<rparr>"

definition sampleBlocks :: localCoreStack where
  "sampleBlocks =
     \<lparr> blocks = [\<lparr> cb_state = ''Karnataka'', cb_district = ''DAKSHINA  KANNADA '',
                    cb_block = ''Mangaluru'', cb_block_id = Some ''1234'' \<rparr>],
       lcsLoaded = True \<rparr>"

definition sampleRegion :: DynamicWorldService where
  "sampleRegion =
     \<lparr> cachedData =
         [\<lparr> dw_year = 2024, dw_month = ''Jan'', water = 5, trees = 60, grass = 5,
            floodedVegetation = 0, crops = 15, shrubAndScrub = 5, built = 8, bare = 2,
            snowAndIce = 0 \<rparr>],
       dataLoaded = True, dwOnline = True \<rparr>"

definition sampleServices :: "rect BoundaryData \<Rightarrow> rect services" where
  "sampleServices dk =
     \<lparr> locationData =
         \<lparr> datasetManager = sampleManager,
           initialized = True,
           boundaries = map_of [(''dakshina_kannada'', dk), (''western_ghats'', wgBoundary)],
           localCoreStackData = sampleBlocks \<rparr>,
       coreStackService = newCoreStackService (Some ''user-key'') True,
       dynamicWorldService = sampleRegion,
       weatherService = freshService \<rparr>"

text \<open>
  The surroundings of a dataset manager that finds no file and an empty cache.
\<close>

definition noFiles :: "rect datasetEnv" where
  "noFiles =
     \<lparr> manifestFile = HttpError 404 [],
       getCachedDataset = (\<lambda>lid. Inr None),
       layerFile = (\<lambda>path fmt. HttpError 404 []),
       cacheDataset = (\<lambda>lid. Inr ()) \<rparr>"

text \<open>
  A world in which the CoreStack API answers every request with HTTP 500 and the weather
  API answers well. The sample services are initialised, so its files are not read.
\<close>

definition failingApiWorld :: "rect world" where
  "failingApiWorld =
     \<lparr> booleanPointInPolygon = rectPip,
       datasets = noFiles,
       boundaryFile = (\<lambda>path. HttpError 404 []),
       blocksFile = HttpError 404 [],
       adminAnswer = (\<lambda>lat lon. HttpError 500 []),
       mwsAnswer = (\<lambda>lat lon. HttpError 500 []),
       kylAnswer = (\<lambda>mws. HttpError 500 []),
       dwFile = None,
       weatherWorld = sampleEnv 0 (HttpOk (Some sampleRaw)) 500,
       isoDate = ''2026-01-01T00:00:00.000Z'' \<rparr>"

text \<open>The same world with an API that answers every administrative lookup with \<open>null\<close>.\<close>

definition emptyApiWorld :: "rect world" where
  "emptyApiWorld = failingApiWorld\<lparr> adminAnswer := (\<lambda>lat lon. HttpOk None) \<rparr>"

text \<open>
  A client that has just started: the services as their constructors build them, with no
  stored API key, online.
\<close>

definition freshServices :: "rect services" where
  "freshServices =
     \<lparr> locationData = newLocationDataService,
       coreStackService = newCoreStackService None True,
       dynamicWorldService = \<lparr> cachedData = [], dataLoaded = False, dwOnline = True \<rparr>,
       weatherService = freshService \<rparr>"

text \<open>
  The same world with the boundary file that does not name its district and with the
  blocks file in place.
\<close>

definition unnamedBoundaryWorld :: "rect world" where
  "unnamedBoundaryWorld =
     failingApiWorld
       \<lparr> boundaryFile :=
           (\<lambda>path. if path = ''/data/boundaries/dakshina_kannada_boundary.geojson''
                   then HttpOk (bd_geojson dkUnnamed) else HttpError 404 []),
         blocksFile := HttpOk (blocks sampleBlocks) \<rparr>"

text \<open>
  The same world with a manifest file that is a JSON object without \<open>layers\<close>, such as
  \<open>{"version": "2.0.0"}\<close>.
\<close>

definition manifestWithoutLayersWorld :: "rect world" where
  "manifestWithoutLayersWorld =
     failingApiWorld\<lparr> datasets := noFiles\<lparr> manifestFile := HttpOk JsonWithoutLayers \<rparr> \<rparr>"

definition namedAdmin :: adminBlock where
  "namedAdmin =
     \<lparr> state = JStr ''Karnataka'', district = JStr ''Dakshina Kannada'', tehsil = JUndefined,
       village = JUndefined, block = JStr ''Mangaluru'', source = boundary_geojson,
       confidence = verified \<rparr>"

definition sampleLandCover :: landCoverBlock where
  "sampleLandCover =
     \<lparr> regionalSummary = Some
         \<lparr> dominantClass = ''Trees'', rs_trees = 60, rs_crops = 15, rs_built = 8,
           rs_water = 5, rs_shrubAndScrub = 5, rs_grass = 5, rs_bare = 2, rs_year = 2024 \<rparr>,
       pointDataAvailable = False,
       lc_source = dynamicworld_regional,
       lc_note = Some (''Regional average for Western Ghats. Point-specific LULC '' @
                       ''requires Google Earth Engine API integration.'') \<rparr>"

section \<open>Verification\<close>

subsection \<open>CoreStackService availability\<close>

lemma isAvailable_iff: "isAvailable svc \<longleftrightarrow> csOnline svc \<and> hasApiKey svc"
  by (simp add: isAvailable_def)

lemma hasApiKey_new: "hasApiKey (newCoreStackService stored online)"
  by (simp add: hasApiKey_def newCoreStackService_def truthyStr_def DEFAULT_API_KEY_def
      split: option.splits)

text \<open>
  C8. The claim: \<open>isAvailable()\<close> is true only when the client is online and a credential
  has been configured by the user, so a fresh client with nothing configured is unavailable
  even when online. The code falls back to the key embedded in the class: a freshly
  constructed service with empty local storage holds \<open>DEFAULT_API_KEY\<close> and, online,
  reports itself available.
\<close>

theorem C8_fresh_client_is_available:
  "isAvailable (newCoreStackService None True) \<and>
   apiKey (newCoreStackService None True) = Some DEFAULT_API_KEY"
  by (simp add: isAvailable_def hasApiKey_def newCoreStackService_def truthyStr_def
      DEFAULT_API_KEY_def)

subsection \<open>WeatherService cache\<close>

lemma toFixed3_same_rounding:
  assumes "0 \<le> x" "0 \<le> y" "\<lfloor>x * 1000 + 1 / 2\<rfloor> = \<lfloor>y * 1000 + 1 / 2\<rfloor>"
  shows "toFixed3 x = toFixed3 y"
  using assms by (simp add: toFixed3_def)

lemma cache_preserved_step:
  assumes "cache ws k = Some c" and "\<forall>t. eventClock ev = Some t \<longrightarrow> t < expiry c"
  shows "cache (weatherStep ev ws) k = Some c"
  using assms
  by (cases ev) (auto simp: getWeather_def fetchWeather_def Let_def split: option.splits http.splits)

lemma cache_preserved_run:
  assumes "cache ws k = Some c"
    and "\<forall>ev\<in>set evs. \<forall>t. eventClock ev = Some t \<longrightarrow> t < expiry c"
  shows "cache (weatherRun evs ws) k = Some c"
  using assms
  by (induction evs arbitrary: ws) (auto simp: cache_preserved_step)

lemma getWeather_success_cached:
  assumes "getWeather env lat lon ws = ((Some w, reqs), ws')"
  shows "\<exists>c. cache ws' (cacheKey lat lon) = Some c \<and> ce_data c = w"
  using assms
  by (auto simp: getWeather_def fetchWeather_def Let_def split: option.splits http.splits if_splits)

lemma getWeather_hit:
  assumes "wsOnline ws" "cache ws (cacheKey lat lon) = Some c" "nowCheck env < expiry c"
  shows "getWeather env lat lon ws = ((Some (ce_data c), []), ws)"
  using assms by (simp add: getWeather_def)

lemma getWeather_fetch_ok:
  assumes "wsOnline ws" "\<not> freshEntry ws (cacheKey lat lon) (nowCheck env)"
    "response env = HttpOk (Some raw)"
  shows "getWeather env lat lon ws =
           ((Some (toWeatherData raw (isoNow env)), [(lat, lon)]),
            ws\<lparr> cache := (cache ws)(cacheKey lat lon \<mapsto>
                 \<lparr> ce_data = toWeatherData raw (isoNow env),
                   expiry = nowStore env + cacheDuration \<rparr>) \<rparr>)"
  using assms
  by (auto simp: getWeather_def fetchWeather_def freshEntry_def Let_def split: option.splits)

lemma getWeather_fetch_fails:
  assumes "wsOnline ws" "\<not> freshEntry ws (cacheKey lat lon) (nowCheck env)"
    "\<forall>raw. response env \<noteq> HttpOk (Some raw)"
  shows "getWeather env lat lon ws = ((None, [(lat, lon)]), ws)"
  using assms
  by (auto simp: getWeather_def fetchWeather_def freshEntry_def split: option.splits http.splits)

text \<open>
  C7. Four facts about \<open>getWeather\<close>, for every service state, environment and
  coordinate.
  \<^enum> After a first query that returned a payload, a second query whose coordinates have
    the same cache key (both rounded to three decimals), made online while the entry of
    the first is still fresh, sends no request and returns the first payload unchanged,
    whatever online/offline events and other queries happened in between while the entry
    was fresh.
  \<^enum> A first query that fetched successfully returns the built payload after one request,
    and its entry is fresh exactly until \<open>cacheDuration\<close> (30 minutes) after it was
    stored.
  \<^enum> A query made while the service is offline returns \<open>null\<close>, sends nothing and leaves
    the service as it was.
  \<^enum> A query that has to fetch (no fresh entry) and whose fetch fails returns \<open>null\<close>,
    also when an expired entry for the key is still in the cache.
\<close>

theorem C7_weather_cache:
  fixes env :: weatherEnv
  shows
  "(\<forall>w reqs ws1 evs (env' :: weatherEnv) lat' lon'.
      getWeather env lat lon ws = ((Some w, reqs), ws1) \<and>
      cacheKey lat' lon' = cacheKey lat lon \<and>
      (\<forall>ev\<in>set evs. \<forall>t. eventClock ev = Some t \<longrightarrow> freshEntry ws1 (cacheKey lat lon) t) \<and>
      freshEntry ws1 (cacheKey lat lon) (nowCheck env') \<and>
      wsOnline (weatherRun evs ws1)
      \<longrightarrow> getWeather env' lat' lon' (weatherRun evs ws1) = ((Some w, []), weatherRun evs ws1)) \<and>
   (\<forall>raw. wsOnline ws \<and> \<not> freshEntry ws (cacheKey lat lon) (nowCheck env) \<and>
      response env = HttpOk (Some raw)
      \<longrightarrow> fst (getWeather env lat lon ws) = (Some (toWeatherData raw (isoNow env)), [(lat, lon)]) \<and>
          (\<forall>t. freshEntry (snd (getWeather env lat lon ws)) (cacheKey lat lon) t
                 \<longleftrightarrow> t < nowStore env + cacheDuration)) \<and>
   (\<not> wsOnline ws \<longrightarrow> getWeather env lat lon ws = ((None, []), ws)) \<and>
   (wsOnline ws \<and> \<not> freshEntry ws (cacheKey lat lon) (nowCheck env) \<and>
      (\<forall>raw. response env \<noteq> HttpOk (Some raw))
      \<longrightarrow> getWeather env lat lon ws = ((None, [(lat, lon)]), ws))"
proof -
  have hit: "getWeather env' lat' lon' (weatherRun evs ws1) = ((Some w, []), weatherRun evs ws1)"
    if first: "getWeather env lat lon ws = ((Some w, reqs), ws1)"
      and key: "cacheKey lat' lon' = cacheKey lat lon"
      and quiet: "\<forall>ev\<in>set evs. \<forall>t. eventClock ev = Some t \<longrightarrow> freshEntry ws1 (cacheKey lat lon) t"
      and ttl: "freshEntry ws1 (cacheKey lat lon) (nowCheck env')"
      and online: "wsOnline (weatherRun evs ws1)"
    for w reqs ws1 evs lat' lon' and env' :: weatherEnv
  proof -
    from getWeather_success_cached[OF first]
    obtain c where c: "cache ws1 (cacheKey lat lon) = Some c" "ce_data c = w"
      by blast
    from quiet c have "\<forall>ev\<in>set evs. \<forall>t. eventClock ev = Some t \<longrightarrow> t < expiry c"
      by (simp add: freshEntry_def)
    with c have "cache (weatherRun evs ws1) (cacheKey lat' lon') = Some c"
      by (simp add: cache_preserved_run key)
    moreover from ttl c have "nowCheck env' < expiry c"
      by (simp add: freshEntry_def)
    ultimately show ?thesis
      using online c by (simp add: getWeather_hit)
  qed
  have stored: "fst (getWeather env lat lon ws) = (Some (toWeatherData raw (isoNow env)), [(lat, lon)]) \<and>
          (\<forall>t. freshEntry (snd (getWeather env lat lon ws)) (cacheKey lat lon) t
                 \<longleftrightarrow> t < nowStore env + cacheDuration)"
    if "wsOnline ws" "\<not> freshEntry ws (cacheKey lat lon) (nowCheck env)"
      "response env = HttpOk (Some raw)" for raw
    using getWeather_fetch_ok[OF that] by (simp add: freshEntry_def)
  have hit': "\<forall>w reqs ws1 evs (env' :: weatherEnv) lat' lon'.
      getWeather env lat lon ws = ((Some w, reqs), ws1) \<and>
      cacheKey lat' lon' = cacheKey lat lon \<and>
      (\<forall>ev\<in>set evs. \<forall>t. eventClock ev = Some t \<longrightarrow> freshEntry ws1 (cacheKey lat lon) t) \<and>
      freshEntry ws1 (cacheKey lat lon) (nowCheck env') \<and>
      wsOnline (weatherRun evs ws1)
      \<longrightarrow> getWeather env' lat' lon' (weatherRun evs ws1) = ((Some w, []), weatherRun evs ws1)"
    using hit by blast
  have stored': "\<forall>raw. wsOnline ws \<and> \<not> freshEntry ws (cacheKey lat lon) (nowCheck env) \<and>
      response env = HttpOk (Some raw)
      \<longrightarrow> fst (getWeather env lat lon ws) = (Some (toWeatherData raw (isoNow env)), [(lat, lon)]) \<and>
          (\<forall>t. freshEntry (snd (getWeather env lat lon ws)) (cacheKey lat lon) t
                 \<longleftrightarrow> t < nowStore env + cacheDuration)"
    using stored by blast
  have off: "\<not> wsOnline ws \<longrightarrow> getWeather env lat lon ws = ((None, []), ws)"
    by (simp add: getWeather_def)
  have fails: "wsOnline ws \<and> \<not> freshEntry ws (cacheKey lat lon) (nowCheck env) \<and>
      (\<forall>raw. response env \<noteq> HttpOk (Some raw))
      \<longrightarrow> getWeather env lat lon ws = ((None, [(lat, lon)]), ws)"
    using getWeather_fetch_fails by blast
  show ?thesis
    by (rule conjI[OF hit' conjI[OF stored' conjI[OF off fails]]])
qed

text \<open>
  A run of the theorem: a fresh online service fetches the weather at (12.9, 74.85) and
  stores it at clock 500; the service goes offline, is queried elsewhere, and comes back;
  a query at (12.9004, 74.8502), one millisecond before the entry expires and with the
  network down, is answered from the cache.
\<close>

theorem C7_weather_cache_witness:
  "getWeather (sampleEnv 0 (HttpOk (Some sampleRaw)) 500) (129 / 10) (7485 / 100) freshService
     = ((Some (toWeatherData sampleRaw ''2026-01-01T00:00:00.000Z''), [(129 / 10, 7485 / 100)]),
        cachedService) \<and>
   cacheKey (129004 / 10000) (748502 / 10000) = cacheKey (129 / 10) (7485 / 100) \<and>
   freshEntry cachedService (cacheKey (129 / 10) (7485 / 100)) 1800499 \<and>
   wsOnline (weatherRun sampleEvents cachedService) \<and>
   getWeather (sampleEnv 1800499 (NetworkError ''down'') 1800499) (129004 / 10000) (748502 / 10000)
     (weatherRun sampleEvents cachedService)
     = ((Some (toWeatherData sampleRaw ''2026-01-01T00:00:00.000Z''), []),
        weatherRun sampleEvents cachedService)"
proof -
  let ?env = "sampleEnv 0 (HttpOk (Some sampleRaw)) 500"
  let ?env' = "sampleEnv 1800499 (NetworkError ''down'') 1800499"
  have "toFixed3 (129004 / 10000) = toFixed3 (129 / 10)"
    by (rule toFixed3_same_rounding) simp_all
  moreover have "toFixed3 (748502 / 10000) = toFixed3 (7485 / 100)"
    by (rule toFixed3_same_rounding) simp_all
  ultimately have key: "cacheKey (129004 / 10000) (748502 / 10000) = cacheKey (129 / 10) (7485 / 100)"
    by (simp only: cacheKey_def)
  have first: "getWeather ?env (129 / 10) (7485 / 100) freshService
     = ((Some (toWeatherData sampleRaw ''2026-01-01T00:00:00.000Z''), [(129 / 10, 7485 / 100)]),
        cachedService)"
    by (simp add: getWeather_def fetchWeather_def freshService_def sampleEnv_def
        cacheDuration_def cachedService_def Let_def)
  have fresh: "freshEntry cachedService (cacheKey (129 / 10) (7485 / 100)) t" if "t < 1800500" for t
    using that by (simp add: cachedService_def freshEntry_def)
  have quiet: "\<forall>ev\<in>set sampleEvents. \<forall>t. eventClock ev = Some t \<longrightarrow>
      freshEntry cachedService (cacheKey (129 / 10) (7485 / 100)) t"
    by (simp add: sampleEvents_def sampleEnv_def cachedService_def freshEntry_def)
  have ttl: "freshEntry cachedService (cacheKey (129 / 10) (7485 / 100)) (nowCheck ?env')"
    by (simp add: sampleEnv_def cachedService_def freshEntry_def)
  have online: "wsOnline (weatherRun sampleEvents cachedService)"
    by (simp add: sampleEvents_def)
  have second: "getWeather ?env' (129004 / 10000) (748502 / 10000)
     (weatherRun sampleEvents cachedService)
     = ((Some (toWeatherData sampleRaw ''2026-01-01T00:00:00.000Z''), []),
        weatherRun sampleEvents cachedService)"
    using C7_weather_cache[of ?env "129 / 10" "7485 / 100" freshService] first key quiet ttl online
    by blast
  from first key fresh[of 1800499] online second show ?thesis by simp
qed

subsection \<open>DatasetManager: the loop over the active layers\<close>

lemma layerStep_other:
  assumes "layerStep pip dm point lid vals = Inr vals'" "k \<noteq> lid"
  shows "map_of vals' k = map_of vals k"
  using assms
  by (auto simp: layerStep_def Let_def update_conv' split: option.splits sum.splits bool.splits
      layerData.splits if_splits)

lemma layerStep_skip:
  assumes "getLayerById dm lid = None \<or> loadedData dm lid = None"
  shows "layerStep pip dm point lid vals = Inr vals"
  using assms by (auto simp: layerStep_def split: option.splits)

lemma layerLoop_other:
  assumes "layerLoop pip dm point lids vals = Inr vals'" "k \<notin> set lids"
  shows "map_of vals' k = map_of vals k"
  using assms
proof (induction lids arbitrary: vals)
  case Nil
  then show ?case by simp
next
  case (Cons lid lids)
  then obtain v1 where s: "layerStep pip dm point lid vals = Inr v1"
    and l: "layerLoop pip dm point lids v1 = Inr vals'"
    by (auto split: sum.splits)
  from Cons.prems have "k \<noteq> lid" "k \<notin> set lids" by auto
  with Cons.IH[OF l] layerStep_other[OF s] show ?case by simp
qed

lemma layerLoop_skip:
  assumes "layerLoop pip dm point lids vals = Inr vals'"
    and "getLayerById dm k = None \<or> loadedData dm k = None"
  shows "map_of vals' k = map_of vals k"
  using assms
proof (induction lids arbitrary: vals)
  case Nil
  then show ?case by simp
next
  case (Cons lid lids)
  then obtain v1 where s: "layerStep pip dm point lid vals = Inr v1"
    and l: "layerLoop pip dm point lids v1 = Inr vals'"
    by (auto split: sum.splits)
  have "map_of v1 k = map_of vals k"
  proof (cases "k = lid")
    case True
    with Cons.prems(2) s show ?thesis by (simp add: layerStep_skip)
  next
    case False
    with s show ?thesis by (rule layerStep_other)
  qed
  with Cons.IH[OF l Cons.prems(2)] show ?case by simp
qed

text \<open>The entry of an active layer is the one its last round in the loop left.\<close>

lemma layerLoop_last_step:
  assumes "layerLoop pip dm point lids vals = Inr vals'" "lid \<in> set lids"
  shows "\<exists>v1 v2. layerStep pip dm point lid v1 = Inr v2 \<and> map_of vals' lid = map_of v2 lid"
  using assms
proof (induction lids arbitrary: vals)
  case Nil
  then show ?case by simp
next
  case (Cons l lids)
  then obtain v1 where s: "layerStep pip dm point l vals = Inr v1"
    and r: "layerLoop pip dm point lids v1 = Inr vals'"
    by (auto split: sum.splits)
  show ?case
  proof (cases "lid \<in> set lids")
    case True
    from Cons.IH[OF r True] show ?thesis .
  next
    case False
    with Cons.prems have "l = lid" by simp
    with s layerLoop_other[OF r False] show ?thesis by blast
  qed
qed

lemma findFeature_none:
  assumes "\<forall>f\<in>set fs. isPolygonal f \<longrightarrow> pip point f = Inr False"
  shows "findFeature pip point fs = Inr None"
  using assms by (induction fs) auto

lemma findFeature_first:
  assumes "\<forall>g\<in>set pre. isPolygonal g \<longrightarrow> pip point g = Inr False"
    and "isPolygonal f" "pip point f = Inr True"
  shows "findFeature pip point (pre @ f # post) = Inr (Some f)"
  using assms by (induction pre) auto

lemma layerStep_vector_none:
  assumes "getLayerById dm lid = Some layer" "loadedData dm lid = Some dat"
    and "sourceFormat layer = geojson"
    and "\<forall>fc. geojsonLayers dm lid = Some fc \<longrightarrow> findFeature pip point fc = Inr None"
  shows "layerStep pip dm point lid vals = Inr (AList.update lid [] vals)"
  using assms by (auto simp: layerStep_def Let_def split: option.splits)

lemma layerStep_vector_found:
  assumes "getLayerById dm lid = Some layer" "loadedData dm lid = Some dat"
    and "sourceFormat layer = geojson"
    and "geojsonLayers dm lid = Some fc" "findFeature pip point fc = Inr (Some f)"
  shows "layerStep pip dm point lid vals =
           Inr (AList.update lid (featureValues layer f) (AList.update lid [] vals))"
  using assms by (auto simp: layerStep_def Let_def split: option.splits)


text \<open>When turf never throws, \<open>getValuesAtPoint\<close> returns.\<close>

lemma layerLoop_total:
  assumes "\<forall>p f. \<exists>b. pip p f = Inr b"
  shows "\<exists>vals'. layerLoop pip dm point lids vals = Inr vals'"
proof -
  have ff: "\<exists>r. findFeature pip point fs = Inr r" for fs
  proof (induction fs)
    case Nil
    then show ?case by simp
  next
    case (Cons f fs)
    from assms obtain b where "pip point f = Inr b" by blast
    with Cons show ?case by (cases b) auto
  qed
  have st: "\<exists>v. layerStep pip dm point lid vs = Inr v" for lid vs
    using ff
    by (auto simp: layerStep_def Let_def split: option.splits sum.splits bool.splits layerData.splits)
       (metis Inl_Inr_False)+
  show ?thesis
  proof (induction lids arbitrary: vals)
    case Nil
    then show ?case by simp
  next
    case (Cons l lids)
    from st obtain v where "layerStep pip dm point l vals = Inr v" by blast
    with Cons[of v] show ?case by simp
  qed
qed

lemma getValuesAtPoint_total:
  assumes "\<forall>p f. \<exists>b. pip p f = Inr b"
  shows "\<exists>vals. getValuesAtPoint pip dm lat lon lids = Inr vals"
  unfolding getValuesAtPoint_def using assms by (rule layerLoop_total)

subsection \<open>DatasetManager: the latest year of a CSV layer\<close>









subsection \<open>DatasetManager: the claims about \<open>getValuesAtPoint\<close>\<close>



lemma map_of_extractFields_aux:
  "map_of (foldl (\<lambda>obj field. AList.update field (Val (featureProp f field)) obj) acc flds) k =
     (if k \<in> set flds then Some (Val (featureProp f k)) else map_of acc k)"
  by (induction flds arbitrary: acc) (auto simp: update_conv')

lemma map_of_extractFields:
  "map_of (extractFields flds f) k = (if k \<in> set flds then Some (Val (featureProp f k)) else None)"
  by (simp add: extractFields_def map_of_extractFields_aux)

text \<open>
  C6, as the claim states it, fails for a layer whose query spec declares no field. The
  default manifest gives its \<open>dakshina_kannada_boundary\<close> layer the field list \<open>[]\<close>. The
  test \<open>if (layer.query?.fields)\<close> is true for an empty array, the loop over it assigns
  nothing, and the entry of the layer stays the empty object: at a point inside the
  polygon the result holds none of the two properties of the matched feature.
\<close>

theorem C6_empty_field_list_gives_empty_entry:
  "map_option queryFields (getLayerById boundaryManager ''dakshina_kannada_boundary'')
     = Some (Some []) \<and>
   findFeature rectPip (queryLon, queryLat) boundaryFeatures = Inr (Some (hd boundaryFeatures)) \<and>
   spreadProperties (hd boundaryFeatures)
     = [(''DISTRICT'', Val (JStr ''Dakshina Kannada'')), (''ST_NM'', Val (JStr ''Karnataka''))] \<and>
   getValuesAtPoint rectPip boundaryManager queryLat queryLon [''dakshina_kannada_boundary'']
     = Inr [(''dakshina_kannada_boundary'', [])]"
proof -
  have layer: "map_option queryFields (getLayerById boundaryManager ''dakshina_kannada_boundary'')
     = Some (Some [])"
    by (simp add: getLayerById_def boundaryManager_def DEFAULT_MANIFEST_def)
  have found: "findFeature rectPip (queryLon, queryLat) boundaryFeatures
     = Inr (Some (hd boundaryFeatures))"
    by (simp add: boundaryFeatures_def isPolygonal_def rectPip_def queryLon_def queryLat_def)
  have props: "spreadProperties (hd boundaryFeatures)
     = [(''DISTRICT'', Val (JStr ''Dakshina Kannada'')), (''ST_NM'', Val (JStr ''Karnataka''))]"
    by (simp add: boundaryFeatures_def spreadProperties_def)
  have vals: "getValuesAtPoint rectPip boundaryManager queryLat queryLon
                 [''dakshina_kannada_boundary'']
     = Inr [(''dakshina_kannada_boundary'', [])]"
    by code_simp
  show ?thesis
    by (rule conjI[OF layer conjI[OF found conjI[OF props vals]]])
qed

text \<open>
  C6, amended. For a GeoJSON layer that is in the manifest, loaded and active: when \<open>f\<close>
  is the first feature in the listed order that is a polygon or multipolygon and contains
  the point (every polygonal feature before it was tested and does not contain it), the
  entry of the layer is taken from \<open>f\<close>. With a query spec the entry has exactly the
  fields of its field list, each with the value of that property of \<open>f\<close> (\<open>undefined\<close>
  when \<open>f\<close> lacks it), so with an empty field list it is the empty object; without a
  query spec it is the copy of all properties of \<open>f\<close>.
\<close>

theorem C6_vector_first_match:
  assumes ok: "getValuesAtPoint pip dm lat lon activeLayerIds = Inr vals"
    and active: "lid \<in> set activeLayerIds"
    and layer: "getLayerById dm lid = Some layer" "sourceFormat layer = geojson"
    and loaded: "loadedData dm lid = Some dat" "geojsonLayers dm lid = Some (pre @ f # post)"
    and before: "\<forall>g\<in>set pre. isPolygonal g \<longrightarrow> pip (lon, lat) g = Inr False"
    and hit: "isPolygonal f" "pip (lon, lat) f = Inr True"
  shows "\<exists>entry. map_of vals lid = Some entry \<and>
           (case queryFields layer of
              Some flds \<Rightarrow>
                (\<forall>k. map_of entry k
                        = (if k \<in> set flds then Some (Val (featureProp f k)) else None)) \<and>
                (flds = [] \<longrightarrow> entry = [])
            | None \<Rightarrow>
                entry = map (\<lambda>(k, v). (k, Val v)) (case properties f of None \<Rightarrow> [] | Some ps \<Rightarrow> ps))"
proof -
  from ok active obtain v1 v2 where
    step: "layerStep pip dm (lon, lat) lid v1 = Inr v2" and eq: "map_of vals lid = map_of v2 lid"
    unfolding getValuesAtPoint_def by (blast dest: layerLoop_last_step)
  have "findFeature pip (lon, lat) (pre @ f # post) = Inr (Some f)"
    using before hit by (rule findFeature_first)
  from step layerStep_vector_found[OF layer(1) loaded(1) layer(2) loaded(2) this, of v1]
  have "map_of v2 lid = Some (featureValues layer f)"
    by (auto simp: update_conv')
  moreover have "extractFields [] f = []"
    by (simp add: extractFields_def)
  ultimately show ?thesis
    using eq
    by (auto simp: featureValues_def map_of_extractFields spreadProperties_def
        split: option.splits)
qed

text \<open>
  In the sample layers the query point lies in the third and the fourth feature (the
  first is a point, the second does not contain it): the third wins. The layer with a
  field list reports its two declared fields, the one without a query spec reports all
  properties, and the boundary layer of the default manifest, whose field list is empty,
  reports nothing.
\<close>

theorem C6_vector_first_match_witness:
  "getValuesAtPoint rectPip sampleManager (129 / 10) (7485 / 100) sampleLayerIds = Inr sampleValues \<and>
   districtFeatures = take 2 districtFeatures @ districtFeatures ! 2 # drop 3 districtFeatures \<and>
   rectPip (7485 / 100, 129 / 10) (districtFeatures ! 2) = Inr True \<and>
   rectPip (7485 / 100, 129 / 10) (districtFeatures ! 3) = Inr True \<and>
   (\<exists>entry. map_of sampleValues ''districts'' = Some entry \<and>
      map_of entry ''DISTRICT'' = Some (Val (JStr ''Dakshina Kannada'')) \<and>
      map_of entry ''population'' = Some (Val JUndefined) \<and>
      map_of entry ''ST_NM'' = None) \<and>
   map_of sampleValues ''districts_all'' =
     Some [(''DISTRICT'', Val (JStr ''Dakshina Kannada'')),
           (''ST_NM'', Val (JStr ''Karnataka'')), (''area_km2'', Val (JNum 4866))] \<and>
   getValuesAtPoint rectPip boundaryManager (129 / 10) (7485 / 100) [''dakshina_kannada_boundary'']
     = Inr boundaryValues \<and>
   rectPip (7485 / 100, 129 / 10) (hd boundaryFeatures) = Inr True \<and>
   map_of boundaryValues ''dakshina_kannada_boundary'' = Some []"
proof -
  have ok: "getValuesAtPoint rectPip sampleManager (129 / 10) (7485 / 100) sampleLayerIds
      = Inr sampleValues"
    by code_simp
  let ?pre = "take 2 districtFeatures" and ?f = "districtFeatures ! 2"
    and ?post = "drop 3 districtFeatures"
  have split: "districtFeatures = ?pre @ ?f # ?post"
    by (simp add: districtFeatures_def)
  have before: "\<forall>g\<in>set ?pre. isPolygonal g \<longrightarrow> rectPip (7485 / 100, 129 / 10) g = Inr False"
    by (simp add: districtFeatures_def isPolygonal_def rectPip_def)
  have hit: "isPolygonal ?f" "rectPip (7485 / 100, 129 / 10) ?f = Inr True"
    by (simp_all add: districtFeatures_def isPolygonal_def rectPip_def)
  have later: "rectPip (7485 / 100, 129 / 10) (districtFeatures ! 3) = Inr True"
    by (simp add: districtFeatures_def rectPip_def)
  have gj: "geojsonLayers sampleManager ''districts'' = Some (?pre @ ?f # ?post)"
    "geojsonLayers sampleManager ''districts_all'' = Some (?pre @ ?f # ?post)"
    using split by (simp_all add: sampleManager_def)
  have l1: "getLayerById sampleManager ''districts'' =
      Some \<lparr> layerId = ''districts'', sourcePath = ''/data/districts.geojson'',
             sourceFormat = geojson,
             queryFields = Some [''DISTRICT'', ''population''], enabled = True \<rparr>"
    by (simp add: getLayerById_def sampleManager_def)
  have l2: "getLayerById sampleManager ''districts_all'' =
      Some \<lparr> layerId = ''districts_all'', sourcePath = ''/data/districts_all.geojson'',
             sourceFormat = geojson,
             queryFields = None, enabled = True \<rparr>"
    by (simp add: getLayerById_def sampleManager_def)
  have d1: "loadedData sampleManager ''districts'' = Some (GeoJSONData districtFeatures)"
    and d2: "loadedData sampleManager ''districts_all'' = Some (GeoJSONData districtFeatures)"
    by (simp_all add: sampleManager_def)
  from C6_vector_first_match[OF ok _ l1 _ d1 gj(1) before hit]
  have e1: "\<exists>entry. map_of sampleValues ''districts'' = Some entry \<and>
      map_of entry ''DISTRICT'' = Some (Val (JStr ''Dakshina Kannada'')) \<and>
      map_of entry ''population'' = Some (Val JUndefined) \<and>
      map_of entry ''ST_NM'' = None"
    by (auto simp: sampleLayerIds_def districtFeatures_def featureProp_def getProp_def)
  from C6_vector_first_match[OF ok _ l2 _ d2 gj(2) before hit]
  have e2: "map_of sampleValues ''districts_all'' =
     Some [(''DISTRICT'', Val (JStr ''Dakshina Kannada'')),
           (''ST_NM'', Val (JStr ''Karnataka'')), (''area_km2'', Val (JNum 4866))]"
    by (auto simp: sampleLayerIds_def districtFeatures_def)
  have okb: "getValuesAtPoint rectPip boundaryManager (129 / 10) (7485 / 100)
                [''dakshina_kannada_boundary'']
      = Inr boundaryValues"
    by code_simp
  have lb: "getLayerById boundaryManager ''dakshina_kannada_boundary'' =
      Some \<lparr> layerId = ''dakshina_kannada_boundary'',
             sourcePath = ''/data/boundaries/dakshina_kannada_boundary.geojson'',
             sourceFormat = geojson, queryFields = Some [], enabled = True \<rparr>"
    by (simp add: getLayerById_def boundaryManager_def DEFAULT_MANIFEST_def)
  have db: "loadedData boundaryManager ''dakshina_kannada_boundary''
      = Some (GeoJSONData boundaryFeatures)"
    and gb: "geojsonLayers boundaryManager ''dakshina_kannada_boundary''
      = Some ([] @ hd boundaryFeatures # [])"
    by (simp_all add: boundaryManager_def boundaryFeatures_def)
  have hitb: "isPolygonal (hd boundaryFeatures)"
    "rectPip (7485 / 100, 129 / 10) (hd boundaryFeatures) = Inr True"
    by (simp_all add: boundaryFeatures_def isPolygonal_def rectPip_def)
  from C6_vector_first_match[OF okb _ lb _ db gb _ hitb]
  have e3: "map_of boundaryValues ''dakshina_kannada_boundary'' = Some []"
    by auto
  from ok split hit(2) later e1 e2 okb hitb(2) e3 show ?thesis
    by (intro conjI)
qed

text \<open>
  C10. In every result of \<open>getValuesAtPoint\<close>: a layer id that is not in the manifest, or
  whose data is not loaded, has no entry; an active GeoJSON layer that is in the manifest
  and loaded, none of whose polygonal features contains the point, has the empty object as
  its entry.
\<close>

theorem C10_absent_and_empty_entries:
  assumes ok: "getValuesAtPoint pip dm lat lon activeLayerIds = Inr vals"
  shows "(getLayerById dm lid = None \<or> loadedData dm lid = None \<longrightarrow> map_of vals lid = None) \<and>
         (\<forall>layer dat.
             lid \<in> set activeLayerIds \<and> getLayerById dm lid = Some layer \<and>
             sourceFormat layer = geojson \<and> loadedData dm lid = Some dat \<and>
             (\<forall>fc. geojsonLayers dm lid = Some fc \<longrightarrow>
                 (\<forall>f\<in>set fc. isPolygonal f \<longrightarrow> pip (lon, lat) f = Inr False))
             \<longrightarrow> map_of vals lid = Some [])"
proof (intro conjI allI impI)
  assume skip: "getLayerById dm lid = None \<or> loadedData dm lid = None"
  from ok have "layerLoop pip dm (lon, lat) activeLayerIds [] = Inr vals"
    by (simp add: getValuesAtPoint_def)
  from layerLoop_skip[OF this skip] show "map_of vals lid = None"
    by simp
next
  fix layer dat
  assume a: "lid \<in> set activeLayerIds \<and> getLayerById dm lid = Some layer \<and>
             sourceFormat layer = geojson \<and> loadedData dm lid = Some dat \<and>
             (\<forall>fc. geojsonLayers dm lid = Some fc \<longrightarrow>
                 (\<forall>f\<in>set fc. isPolygonal f \<longrightarrow> pip (lon, lat) f = Inr False))"
  with ok obtain v1 v2 where
    step: "layerStep pip dm (lon, lat) lid v1 = Inr v2" and eq: "map_of vals lid = map_of v2 lid"
    unfolding getValuesAtPoint_def by (blast dest: layerLoop_last_step)
  from a have "\<forall>fc. geojsonLayers dm lid = Some fc \<longrightarrow> findFeature pip (lon, lat) fc = Inr None"
    by (auto intro: findFeature_none)
  with a step have "v2 = AList.update lid [] v1"
    by (auto simp: layerStep_vector_none)
  with eq show "map_of vals lid = Some []"
    by (simp add: update_conv')
qed

text \<open>
  Far from every sample feature the two GeoJSON layers have empty entries, while the CSV
  layer that was never loaded and the id that is in no manifest have none.
\<close>

theorem C10_absent_and_empty_entries_witness:
  "getValuesAtPoint rectPip sampleManager 20 (7485 / 100) sampleLayerIds = Inr sampleValuesFar \<and>
   getLayerById sampleManager ''unknown_layer'' = None \<and>
   loadedData sampleManager ''built_area_glc'' = None \<and>
   map_of sampleValuesFar ''unknown_layer'' = None \<and>
   map_of sampleValuesFar ''built_area_glc'' = None \<and>
   map_of sampleValuesFar ''districts'' = Some []"
proof -
  have ok: "getValuesAtPoint rectPip sampleManager 20 (7485 / 100) sampleLayerIds
      = Inr sampleValuesFar"
    by code_simp
  have u: "getLayerById sampleManager ''unknown_layer'' = None"
    by (simp add: getLayerById_def sampleManager_def)
  have b: "loadedData sampleManager ''built_area_glc'' = None"
    by (simp add: sampleManager_def)
  from C10_absent_and_empty_entries[OF ok, of "''unknown_layer''"] u
  have r1: "map_of sampleValuesFar ''unknown_layer'' = None" by blast
  from C10_absent_and_empty_entries[OF ok, of "''built_area_glc''"] b
  have r2: "map_of sampleValuesFar ''built_area_glc'' = None" by blast
  have l1: "getLayerById sampleManager ''districts'' =
      Some \<lparr> layerId = ''districts'', sourcePath = ''/data/districts.geojson'',
             sourceFormat = geojson,
             queryFields = Some [''DISTRICT'', ''population''], enabled = True \<rparr>"
    by (simp add: getLayerById_def sampleManager_def)
  have d1: "loadedData sampleManager ''districts'' = Some (GeoJSONData districtFeatures)"
    by (simp add: sampleManager_def)
  have none: "\<forall>fc. geojsonLayers sampleManager ''districts'' = Some fc \<longrightarrow>
      (\<forall>f\<in>set fc. isPolygonal f \<longrightarrow> rectPip (7485 / 100, 20) f = Inr False)"
    by (simp add: sampleManager_def districtFeatures_def isPolygonal_def rectPip_def)
  have act: "''districts'' \<in> set sampleLayerIds"
    by (simp add: sampleLayerIds_def)
  from C10_absent_and_empty_entries[OF ok, of "''districts''", THEN conjunct2, rule_format,
      of _ "GeoJSONData districtFeatures"] act l1 d1 none
  have r3: "map_of sampleValuesFar ''districts'' = Some []"
    by simp
  from ok u b r1 r2 r3 show ?thesis
    by (intro conjI)
qed

subsection \<open>LocationDataService: the administrative lookup\<close>

lemma remoteAdmin_Some:
  assumes "remoteAdmin cs answer online = Some r"
  shows "online \<and> csOnline cs \<and> hasApiKey cs \<and>
         (\<exists>details. answer = HttpOk (Some details) \<and>
            (truthy (state_name details) \<or> truthy (district_name details)) \<and>
            state r = state_name details \<and> district r = district_name details \<and>
            tehsil r = tehsil_name details) \<and>
         source r = corestack_api \<and> confidence r = verified"
  using assms
  by (auto simp: remoteAdmin_def request_def split: if_splits sum.splits option.splits http.splits)

lemma remoteAdmin_unavailable:
  assumes "\<not> online \<or> \<not> hasApiKey cs \<or> \<not> csOnline cs \<or> (\<forall>body. answer \<noteq> HttpOk (Some body))"
  shows "remoteAdmin cs answer online = None"
  using assms
  by (auto simp: remoteAdmin_def request_def split: sum.splits option.splits http.splits)

text \<open>The API comes first: a non-empty answer is the result, tagged as verified.\<close>

lemma getAdminData_remote:
  assumes "remoteAdmin cs answer online = Some r"
  shows "getAdminData pip lds cs answer lat lon online = Inr (Some r)"
  using assms by (simp add: getAdminData_def)

lemma inside_has_properties:
  "inside (boundaryLoop pip point fs) \<Longrightarrow> \<exists>ps. pc_properties (boundaryLoop pip point fs) = Some ps"
  by (induction fs) (auto split: sum.splits bool.splits)

lemma isPointInBoundary_properties:
  assumes "inside (isPointInBoundary pip bnds lat lon bid)"
  shows "\<exists>ps. pc_properties (isPointInBoundary pip bnds lat lon bid) = Some ps"
  using assms
  by (auto simp: isPointInBoundary_def inside_has_properties split: option.splits if_splits)

text \<open>
  Without a usable answer of the API, a point inside the Dakshina Kannada boundary gets
  the boundary block, provided \<open>getLocalBlockData\<close> returns: the blocks file is not
  loaded, or the district read from the matched feature is a string.
\<close>

lemma getAdminData_dakshina_kannada:
  assumes remote: "remoteAdmin cs answer online = None"
    and dk: "isPointInBoundary pip (boundaries lds) lat lon ''dakshina_kannada''
               = \<lparr> inside = True, pc_properties = Some ps \<rparr>"
    and district: "\<not> lcsLoaded (localCoreStackData lds) \<or>
               (\<exists>d. jsOr (getProp ps ''DISTRICT'') (getProp ps ''district'') = JStr d)"
  shows "\<exists>a. getAdminData pip lds cs answer lat lon online = Inr (Some a) \<and>
             source a = boundary_geojson \<and> confidence a = verified"
  using assms
  by (auto simp: getAdminData_def getLocalBlockData_def Let_def split: option.splits)

text \<open>The Western Ghats boundary is consulted only after Dakshina Kannada failed.\<close>

lemma getAdminData_western_ghats:
  assumes remote: "remoteAdmin cs answer online = None"
    and dk: "\<not> inside (isPointInBoundary pip (boundaries lds) lat lon ''dakshina_kannada'')"
    and wg: "inside (isPointInBoundary pip (boundaries lds) lat lon ''western_ghats'')"
  shows "getAdminData pip lds cs answer lat lon online =
           Inr (Some \<lparr> state = JStr ''Within Western Ghats'', district = JUndefined,
                        tehsil = JUndefined, village = JUndefined, block = JUndefined,
                        source = boundary_geojson, confidence = verified \<rparr>)"
  using assms
  by (auto simp: getAdminData_def Let_def split: option.splits bool.splits)

lemma boundaryLoop_outside:
  assumes "\<forall>f\<in>set fs. isPolygonal f \<longrightarrow> pip point f \<noteq> Inr True"
  shows "\<not> inside (boundaryLoop pip point fs)"
  using assms by (induction fs) (auto split: sum.splits bool.splits)

lemma isPointInBoundary_outside:
  assumes "\<forall>b fc. bnds bid = Some b \<longrightarrow> bd_geojson b = Some fc \<longrightarrow> bd_loaded b \<longrightarrow>
             (\<forall>f\<in>set fc. isPolygonal f \<longrightarrow> pip (lon, lat) f \<noteq> Inr True)"
  shows "\<not> inside (isPointInBoundary pip bnds lat lon bid)"
  using assms
  by (auto simp: isPointInBoundary_def boundaryLoop_outside split: option.splits)

text \<open>
  In this \<open>getAdminData\<close> a point that no polygon of the two loaded boundaries contains,
  with the API unavailable or answering nothing usable, has no administrative block.
\<close>

lemma getAdminData_outside:
  assumes remote: "remoteAdmin cs answer online = None"
    and out: "\<forall>bid b fc. boundaries lds bid = Some b \<longrightarrow> bd_geojson b = Some fc \<longrightarrow>
                bd_loaded b \<longrightarrow> (\<forall>f\<in>set fc. isPolygonal f \<longrightarrow> pip (lon, lat) f \<noteq> Inr True)"
  shows "getAdminData pip lds cs answer lat lon online = Inr None"
proof -
  have "\<not> inside (isPointInBoundary pip (boundaries lds) lat lon bid)" for bid
    using out by (intro isPointInBoundary_outside) blast
  with remote show ?thesis
    by (auto simp: getAdminData_def Let_def split: option.splits bool.splits)
qed

subsection \<open>LocationDataService: initialisation\<close>

lemma initialize_initialized:
  "initialized (locationData st) \<Longrightarrow> initialize w st = Inr st"
  by (simp add: initialize_def)

lemma enrichLocation_initialized:
  "initialized (locationData st) \<Longrightarrow>
     enrichLocation w st lat lon online = Inr (enrichInitialized w st lat lon online)"
  by (simp add: enrichLocation_def initialize_initialized)

text \<open>
  \<open>DatasetManager.initialize\<close> rejects exactly on a manifest file without \<open>layers\<close>, and
  so do \<open>initialize\<close> and \<open>enrichLocation\<close> of a service that is not initialised yet.
\<close>

lemma DatasetManager_initialize_rejects_iff:
  "(\<exists>e. DatasetManager_initialize env dm = Inl e) \<longleftrightarrow>
     manifestFile env = HttpOk JsonWithoutLayers"
  by (auto simp: DatasetManager_initialize_def preloadLayers_def fetchManifest_def
      split: http.splits manifestBody.splits option.splits)

lemma initialize_rejects_iff:
  "(\<exists>e. initialize w st = Inl e) \<longleftrightarrow>
     \<not> initialized (locationData st) \<and> manifestFile (datasets w) = HttpOk JsonWithoutLayers"
  using DatasetManager_initialize_rejects_iff[of "datasets w" "datasetManager (locationData st)"]
  by (auto simp: initialize_def split: sum.splits)

lemma enrichLocation_rejects_iff:
  "(\<exists>e. enrichLocation w st lat lon online = Inl e) \<longleftrightarrow>
     \<not> initialized (locationData st) \<and> manifestFile (datasets w) = HttpOk JsonWithoutLayers"
  using initialize_rejects_iff[of w st]
  by (auto simp: enrichLocation_def split: sum.splits)

lemma initialize_returns:
  assumes "initialized (locationData st) \<or> manifestFile (datasets w) \<noteq> HttpOk JsonWithoutLayers"
  shows "\<exists>st0. initialize w st = Inr st0"
  using assms initialize_rejects_iff[of w st]
  by (cases "initialize w st") auto


text \<open>
  In this \<open>enrichLocation\<close> a point that no polygon of the two loaded boundaries contains,
  with the API unavailable or answering nothing usable, has no administrative block.
\<close>

lemma enrichLocation_outside:
  assumes init: "initialized (locationData st)"
    and remote: "remoteAdmin (coreStackService st) (adminAnswer w lat lon) online = None"
    and out: "\<forall>bid b fc. boundaries (locationData st) bid = Some b \<longrightarrow> bd_geojson b = Some fc \<longrightarrow>
                bd_loaded b \<longrightarrow>
                (\<forall>f\<in>set fc. isPolygonal f \<longrightarrow> booleanPointInPolygon w (lon, lat) f \<noteq> Inr True)"
  shows "\<exists>r st'. enrichLocation w st lat lon online = Inr (r, st') \<and> admin r = None"
proof -
  have "getAdminData (booleanPointInPolygon w) (locationData st) (coreStackService st)
          (adminAnswer w lat lon) lat lon online = Inr None"
    using remote out by (rule getAdminData_outside)
  then show ?thesis
    by (simp add: enrichLocation_initialized[OF init] enrichInitialized_def assemble_def
        adminBranch_def settle_def blockOf_def)
qed

text \<open>
  The branches of the sample services in the world whose API answers HTTP 500. Only the
  administrative branch reads the boundaries.
\<close>

lemma sample_localBranch:
  "localBranch failingApiWorld (sampleServices dk) queryLat queryLon
     = Fulfilled (Some sampleValues)"
proof -
  have "getLocalData rectPip (locationData (sampleServices dkNamed)) queryLat queryLon
          = Inr (Some sampleValues)"
    by code_simp
  then show ?thesis
    by (simp add: localBranch_def settle_def failingApiWorld_def sampleServices_def
        getLocalData_def)
qed

lemma sample_adminBranch:
  "adminBranch failingApiWorld (sampleServices dkNamed) queryLat queryLon online
     = Fulfilled (Some namedAdmin)"
  by (cases online) (simp_all, code_simp+)

lemma unnamed_adminBranch:
  "adminBranch failingApiWorld (sampleServices dkUnnamed) queryLat queryLon False
     = Rejected (TypeError ''Cannot read properties of undefined (reading 'toLowerCase')'')"
  by code_simp

lemma sample_landCoverBranch:
  "landCoverBranch failingApiWorld (sampleServices dk) = Fulfilled (Some sampleLandCover)"
proof -
  have "fst (getLandCoverData None sampleRegion) = Some sampleLandCover"
    by code_simp
  then show ?thesis
    by (simp add: landCoverBranch_def failingApiWorld_def sampleServices_def)
qed

lemma sample_watershedBranch:
  "watershedBranch failingApiWorld (sampleServices dk) lat lon online = Fulfilled None"
  by (simp add: watershedBranch_def getWatershedData_def request_def failingApiWorld_def)

lemma sample_weatherBranch:
  "weatherBranch failingApiWorld (sampleServices dk) lat lon online
     = Fulfilled (if online then Some (toWeatherData sampleRaw ''2026-01-01T00:00:00.000Z'')
                  else None)"
  by (simp add: weatherBranch_def failingApiWorld_def sampleServices_def getWeather_def
      fetchWeather_def freshService_def sampleEnv_def Let_def)

lemma sample_initialized: "initialized (locationData (sampleServices dk))"
  by (simp add: sampleServices_def)

lemma sample_enrichLocation:
  "map_sum id fst (enrichLocation failingApiWorld (sampleServices dkNamed) queryLat queryLon online) =
     Inr \<lparr> coordinates = (queryLat, queryLon), timestamp = ''2026-01-01T00:00:00.000Z'',
           admin = Some namedAdmin, landCover = Some sampleLandCover, watershed = None,
           weather = (if online then Some (toWeatherData sampleRaw ''2026-01-01T00:00:00.000Z'')
                      else None),
           localData = Some sampleValues, isOnline = online, errors = [], warnings = [] \<rparr>"
  unfolding enrichLocation_initialized[OF sample_initialized] enrichInitialized_def
  by (simp only: sample_localBranch sample_adminBranch sample_landCoverBranch
        sample_watershedBranch sample_weatherBranch)
     (simp add: assemble_def blockOf_def errorOf_def failingApiWorld_def)

text \<open>
  The scenario of the specification on a boundary file that names its district: offline
  at (12.9, 74.85), inside the Dakshina Kannada polygon, the result has the boundary
  block, no watershed, no weather and no errors.
\<close>

lemma enrichLocation_named_boundary:
  "map_sum id fst (enrichLocation failingApiWorld (sampleServices dkNamed) queryLat queryLon False) =
     Inr \<lparr> coordinates = (queryLat, queryLon), timestamp = ''2026-01-01T00:00:00.000Z'',
           admin = Some namedAdmin, landCover = Some sampleLandCover, watershed = None,
           weather = None, localData = Some sampleValues, isOnline = False, errors = [],
           warnings = [] \<rparr>"
  by (simp add: sample_enrichLocation)

text \<open>
  C1. The claim: a containing boundary yields an administrative block with the
  boundary-polygon source and confidence verified; in particular at (12.90, 74.85) inside
  the loaded Dakshina Kannada boundary, offline. The code gives that block when the
  matched feature has a string under \<open>DISTRICT\<close> or \<open>district\<close>
  (\<open>getAdminData_dakshina_kannada\<close>, \<open>enrichLocation_named_boundary\<close>). On a boundary
  file whose polygon has neither, with the blocks file loaded, \<open>getLocalBlockData\<close> calls
  \<open>toLowerCase\<close> on \<open>undefined\<close> before the fallback \<open>district || 'Dakshina Kannada'\<close> is
  reached: the administrative branch rejects, and the result has no administrative block
  and one error.
\<close>

theorem C1_unnamed_boundary_has_no_admin_block:
  "isPointInBoundary rectPip (boundaries (locationData (sampleServices dkUnnamed)))
      queryLat queryLon ''dakshina_kannada''
     = \<lparr> inside = True, pc_properties = Some [(''name'', JStr ''Dakshina Kannada'')] \<rparr> \<and>
   map_sum id fst (enrichLocation failingApiWorld (sampleServices dkUnnamed)
                     queryLat queryLon False)
     = Inr \<lparr> coordinates = (queryLat, queryLon), timestamp = ''2026-01-01T00:00:00.000Z'',
             admin = None, landCover = Some sampleLandCover, watershed = None,
             weather = None, localData = Some sampleValues, isOnline = False,
             errors = [''Admin data: TypeError: '' @
                       ''Cannot read properties of undefined (reading 'toLowerCase')''],
             warnings = [] \<rparr>"
proof -
  have inside: "isPointInBoundary rectPip (boundaries (locationData (sampleServices dkUnnamed)))
      queryLat queryLon ''dakshina_kannada''
     = \<lparr> inside = True, pc_properties = Some [(''name'', JStr ''Dakshina Kannada'')] \<rparr>"
    by code_simp
  have "map_sum id fst (enrichLocation failingApiWorld (sampleServices dkUnnamed)
                     queryLat queryLon False)
     = Inr \<lparr> coordinates = (queryLat, queryLon), timestamp = ''2026-01-01T00:00:00.000Z'',
             admin = None, landCover = Some sampleLandCover, watershed = None,
             weather = None, localData = Some sampleValues, isOnline = False,
             errors = [''Admin data: TypeError: '' @
                       ''Cannot read properties of undefined (reading 'toLowerCase')''],
             warnings = [] \<rparr>"
    unfolding enrichLocation_initialized[OF sample_initialized] enrichInitialized_def
    by (simp only: sample_localBranch unnamed_adminBranch sample_landCoverBranch
          sample_watershedBranch sample_weatherBranch)
       (simp add: assemble_def blockOf_def errorOf_def failingApiWorld_def)
  with inside show ?thesis by (rule conjI)
qed

text \<open>
  The same happens to the client that has just started and loads this boundary file and
  the blocks file in \<open>initialize\<close>.
\<close>

lemma enrichLocation_fresh_client_unnamed_boundary:
  "map_sum id fst (enrichLocation unnamedBoundaryWorld freshServices queryLat queryLon False)
     = Inr \<lparr> coordinates = (queryLat, queryLon), timestamp = ''2026-01-01T00:00:00.000Z'',
             admin = None, landCover = Some unavailableLandCover, watershed = None,
             weather = None, localData = Some [], isOnline = False,
             errors = [''Admin data: TypeError: '' @
                       ''Cannot read properties of undefined (reading 'toLowerCase')''],
             warnings = [] \<rparr>"
  by code_simp

text \<open>
  C2. The claim: outside every loaded boundary polygon, with the API unavailable or
  empty, there is no administrative block, and none is ever derived from a box of
  coordinates. The first \<open>getAdminData\<close> of the file does this (\<open>getAdminData_outside\<close>,
  \<open>enrichLocation_outside\<close>). The second one loads no boundary at all and answers from
  two coordinate boxes: offline at (13, 77) it reports the Western Ghats region, and at
  (13, 75) an estimated district.
\<close>

theorem C2_second_getAdminData_uses_bounding_boxes:
  "getAdminData2 (newCoreStackService None True) (NetworkError ''offline'') 13 77 False
     = Inr (Some \<lparr> ab2_state = JStr ''Western Ghats Region'', ab2_district = JUndefined,
                    ab2_tehsil = JUndefined, ab2_source = src_local \<rparr>) \<and>
   getAdminData2 (newCoreStackService None True) (NetworkError ''offline'') 13 75 False
     = Inr (Some \<lparr> ab2_state = JStr ''Karnataka'',
                    ab2_district = JStr ''Dakshina Kannada (estimated)'',
                    ab2_tehsil = JUndefined, ab2_source = src_local \<rparr>)"
  by (simp add: getAdminData2_def)

subsection \<open>LocationDataService: assembling the result\<close>

lemma getLandCoverData_never_point_specific:
  "\<exists>b. fst (getLandCoverData fetched dw) = Some b \<and> \<not> pointDataAvailable b \<and>
       lc_source b \<noteq> dynamicworld_point"
  by (simp add: getLandCoverData_def Let_def unavailableLandCover_def regionalLandCover_def
      split: option.splits)

text \<open>Three of the five branches never reject, and the land-cover branch always has a value.\<close>

lemma branches_that_never_reject:
  "(\<exists>v. landCoverBranch w st = Fulfilled (Some v)) \<and>
   (\<exists>v. watershedBranch w st lat lon online = Fulfilled v) \<and>
   (\<exists>v. weatherBranch w st lat lon online = Fulfilled v)"
  using getLandCoverData_never_point_specific[of "dwFile w" "dynamicWorldService st"]
  by (auto simp: landCoverBranch_def watershedBranch_def weatherBranch_def)

text \<open>
  Once \<open>initialize\<close> has passed, \<open>enrichLocation\<close> returns. Each block of its result is the
  value of its own branch, whatever the other branches did: the local values and the
  administrative block are absent when their branch rejects or has no value, the
  land-cover block is always present, and \<open>errors\<close> holds one diagnostic for each of the
  local-data and administrative branches that rejects, and nothing else.
\<close>

lemma enrichLocation_fail_soft:
  assumes init: "initialize w st = Inr st0"
  shows "\<exists>r st'. enrichLocation w st lat lon online = Inr (r, st') \<and>
           localData r = blockOf (localBranch w st0 lat lon) \<and>
           admin r = blockOf (adminBranch w st0 lat lon online) \<and>
           landCover r = fst (getLandCoverData (dwFile w) (dynamicWorldService st0)) \<and>
           landCover r \<noteq> None \<and>
           watershed r = getWatershedData (coreStackService st0) (mwsAnswer w lat lon)
                           (kylAnswer w) online \<and>
           weather r = (if online
                        then fst (fst (getWeather (weatherWorld w) lat lon (weatherService st0)))
                        else None) \<and>
           errors r = errorOf ''Local data: '' (localBranch w st0 lat lon) @
                      errorOf ''Admin data: '' (adminBranch w st0 lat lon online)"
proof -
  obtain b where b: "fst (getLandCoverData (dwFile w) (dynamicWorldService st0)) = Some b"
    using getLandCoverData_never_point_specific[of "dwFile w" "dynamicWorldService st0"]
    by blast
  have ret: "enrichLocation w st lat lon online = Inr (enrichInitialized w st0 lat lon online)"
    by (simp add: enrichLocation_def init)
  have "localData (fst (enrichInitialized w st0 lat lon online))
          = blockOf (localBranch w st0 lat lon)"
    and "admin (fst (enrichInitialized w st0 lat lon online))
          = blockOf (adminBranch w st0 lat lon online)"
    and "landCover (fst (enrichInitialized w st0 lat lon online))
          = fst (getLandCoverData (dwFile w) (dynamicWorldService st0))"
    and "watershed (fst (enrichInitialized w st0 lat lon online))
          = getWatershedData (coreStackService st0) (mwsAnswer w lat lon) (kylAnswer w) online"
    and "weather (fst (enrichInitialized w st0 lat lon online))
          = (if online
             then fst (fst (getWeather (weatherWorld w) lat lon (weatherService st0)))
             else None)"
    and "errors (fst (enrichInitialized w st0 lat lon online))
          = errorOf ''Local data: '' (localBranch w st0 lat lon) @
            errorOf ''Admin data: '' (adminBranch w st0 lat lon online)"
    by (simp_all add: enrichInitialized_def assemble_def landCoverBranch_def
        watershedBranch_def weatherBranch_def blockOf_def errorOf_def b split: option.splits)
  with ret b show ?thesis
    by (cases "enrichInitialized w st0 lat lon online") auto
qed

text \<open>
  The client that has just started, offline, in a world where no file can be fetched:
  \<open>initialize\<close> keeps the default manifest and loads nothing, and \<open>enrichLocation\<close>
  returns the result with the least content that it can have.
\<close>

lemma enrichLocation_nothing_loaded:
  "map_sum id fst (enrichLocation failingApiWorld freshServices queryLat queryLon False) =
     Inr \<lparr> coordinates = (queryLat, queryLon), timestamp = ''2026-01-01T00:00:00.000Z'',
           admin = None, landCover = Some unavailableLandCover, watershed = None,
           weather = None, localData = Some [], isOnline = False, errors = [],
           warnings = [] \<rparr>"
  by code_simp

text \<open>
  C3. The claim: \<open>enrichLocation\<close> never throws, whatever the backing sources do. The
  code does so once \<open>initialize\<close> has passed (\<open>enrichLocation_fail_soft\<close>), and
  \<open>initialize\<close> passes unless the manifest file is a JSON document without \<open>layers\<close>
  (\<open>initialize_rejects_iff\<close>). On such a manifest the first statement of
  \<open>preloadLayers\<close> throws a TypeError outside every \<open>try\<close>, \<open>initialize\<close> rejects, and
  \<open>enrichLocation\<close>, which awaits it before \<open>Promise.allSettled\<close>, rejects with it: the
  client that has just started gets no \<open>LocationEnrichment\<close> at all.
\<close>

theorem C3_manifest_without_layers_rejects:
  "manifestFile (datasets manifestWithoutLayersWorld) = HttpOk JsonWithoutLayers \<and>
   \<not> initialized (locationData freshServices) \<and>
   enrichLocation manifestWithoutLayersWorld freshServices queryLat queryLon False
     = Inl (TypeError ''Cannot read properties of undefined (reading 'filter')'')"
  by (simp add: manifestWithoutLayersWorld_def freshServices_def newLocationDataService_def
      enrichLocation_def initialize_def DatasetManager_initialize_def fetchManifest_def
      preloadLayers_def)

text \<open>
  C4, as the claim states it, fails: with the CoreStack API answering HTTP 500 to every
  request, online, the thrown error is caught inside \<open>getAdminData\<close> and only logged.
  The administrative branch falls back to the boundary and fulfils; \<open>errors\<close> is empty,
  not a list with one entry for the administrative failure.
\<close>

theorem C4_http_500_leaves_no_error:
  "adminAnswer failingApiWorld queryLat queryLon = HttpError 500 [] \<and>
   request (coreStackService (sampleServices dkNamed)) (adminAnswer failingApiWorld queryLat queryLon)
     = Inl (Error ''API error: 500'') \<and>
   map_sum id fst (enrichLocation failingApiWorld (sampleServices dkNamed) queryLat queryLon True) =
     Inr \<lparr> coordinates = (queryLat, queryLon), timestamp = ''2026-01-01T00:00:00.000Z'',
           admin = Some namedAdmin, landCover = Some sampleLandCover, watershed = None,
           weather = Some (toWeatherData sampleRaw ''2026-01-01T00:00:00.000Z''),
           localData = Some sampleValues, isOnline = True, errors = [], warnings = [] \<rparr>"
proof -
  have "adminAnswer failingApiWorld queryLat queryLon = HttpError 500 []"
    by (simp add: failingApiWorld_def)
  moreover have "request (coreStackService (sampleServices dkNamed))
        (HttpError 500 [] :: AdminDetails option http) = Inl (Error ''API error: 500'')"
    by (simp add: request_def sampleServices_def newCoreStackService_def hasApiKey_def
        truthyStr_def digitsOf.simps digitChar_def)
  ultimately show ?thesis
    by (simp add: sample_enrichLocation)
qed

lemma getAdminData_failure_as_empty:
  "getAdminData pip lds cs (HttpError status m) lat lon online =
     getAdminData pip lds cs (HttpOk None) lat lon online"
  "getAdminData pip lds cs (NetworkError m) lat lon online =
     getAdminData pip lds cs (HttpOk None) lat lon online"
  by (auto simp: getAdminData_def remoteAdmin_def request_def)

lemma getWatershedData_failure:
  "getWatershedData cs (HttpError status m) kyl online = None"
  "getWatershedData cs (NetworkError m) kyl online = None"
  by (auto simp: getWatershedData_def request_def)

text \<open>\<open>initialize\<close> does not ask the CoreStack API.\<close>

lemma initialize_adminAnswer:
  "initialize (w\<lparr> adminAnswer := a \<rparr>) st = initialize w st"
  by (simp add: initialize_def cong: sum.case_cong)

text \<open>
  C4, amended. The \<open>errors\<close> of the assembled result are the diagnostics of the
  local-data, administrative, land-cover and watershed outcomes, in this order: a rejected
  outcome gives one string, its label followed by the reason, and a fulfilled one gives
  none; the weather outcome gives none either way. The blocks are those of the fulfilled
  outcomes. When the administrative lookup of the API fails with an HTTP status such as
  500, the call does what it does on an empty answer of the API: the failure is caught
  inside the branch and leaves no entry in \<open>errors\<close>. When the watershed lookup fails as
  well, and the service is initialised or its manifest file is not one without layers,
  the call returns the result assembled from the five branches; its watershed block is
  absent, and online its weather block is what the weather adapter returns.
\<close>

theorem C4_diagnostics_amended:
  assumes adminFails: "adminAnswer w lat lon = HttpError status m"
    and mwsFails: "mwsAnswer w lat lon = HttpError status' m'"
    and ready: "initialized (locationData st) \<or>
                manifestFile (datasets w) \<noteq> HttpOk JsonWithoutLayers"
  shows "errors (assemble lat lon isoStr online lp ap cp wp xp)
           = errorOf ''Local data: '' lp @ errorOf ''Admin data: '' ap @
             errorOf ''Land cover: '' cp @ errorOf ''Watershed: '' wp \<and>
         errorOf label (Rejected e :: 'a option settled) = [label @ errToString e] \<and>
         errorOf label (Fulfilled v :: 'a option settled) = [] \<and>
         admin (assemble lat lon isoStr online lp ap cp wp xp) = blockOf ap \<and>
         landCover (assemble lat lon isoStr online lp ap cp wp xp) = blockOf cp \<and>
         watershed (assemble lat lon isoStr online lp ap cp wp xp) = blockOf wp \<and>
         weather (assemble lat lon isoStr online lp ap cp wp xp) = blockOf xp \<and>
         localData (assemble lat lon isoStr online lp ap cp wp xp) = blockOf lp \<and>
         enrichLocation w st lat lon online
           = enrichLocation (w\<lparr> adminAnswer := (\<lambda>a b. HttpOk None) \<rparr>) st lat lon online \<and>
         (\<exists>st0 r st'.
             initialize w st = Inr st0 \<and>
             enrichLocation w st lat lon online = Inr (r, st') \<and>
             r = assemble lat lon (isoDate w) online (localBranch w st0 lat lon)
                   (adminBranch w st0 lat lon online) (landCoverBranch w st0)
                   (watershedBranch w st0 lat lon online) (weatherBranch w st0 lat lon online) \<and>
             watershed r = None \<and>
             (online \<longrightarrow>
                weather r = fst (fst (getWeather (weatherWorld w) lat lon (weatherService st)))))"
proof -
  have a: "adminBranch w s lat lon online
      = adminBranch (w\<lparr> adminAnswer := (\<lambda>a b. HttpOk None) \<rparr>) s lat lon online" for s
    by (simp add: adminBranch_def adminFails getAdminData_failure_as_empty)
  have same: "enrichLocation w st lat lon online
           = enrichLocation (w\<lparr> adminAnswer := (\<lambda>a b. HttpOk None) \<rparr>) st lat lon online"
    using a
    by (simp add: enrichLocation_def initialize_adminAnswer enrichInitialized_def
        localBranch_def landCoverBranch_def watershedBranch_def weatherBranch_def
        split: sum.splits)
  obtain st0 where init: "initialize w st = Inr st0"
    using initialize_returns[OF ready] by blast
  have wsv: "weatherService st0 = weatherService st" and cs: "coreStackService st0 = coreStackService st"
    using init by (auto simp: initialize_def split: if_splits sum.splits)
  let ?r = "assemble lat lon (isoDate w) online (localBranch w st0 lat lon)
              (adminBranch w st0 lat lon online) (landCoverBranch w st0)
              (watershedBranch w st0 lat lon online) (weatherBranch w st0 lat lon online)"
  have ret: "enrichLocation w st lat lon online = Inr (?r, snd (enrichInitialized w st0 lat lon online))"
    by (simp add: enrichLocation_def init enrichInitialized_def)
  have ws: "watershed ?r = None"
    by (simp add: assemble_def watershedBranch_def blockOf_def mwsFails getWatershedData_failure)
  have wx: "online \<longrightarrow>
      weather ?r = fst (fst (getWeather (weatherWorld w) lat lon (weatherService st)))"
    by (simp add: assemble_def weatherBranch_def blockOf_def wsv split: option.splits)
  have run: "\<exists>st0 r st'.
             initialize w st = Inr st0 \<and>
             enrichLocation w st lat lon online = Inr (r, st') \<and>
             r = assemble lat lon (isoDate w) online (localBranch w st0 lat lon)
                   (adminBranch w st0 lat lon online) (landCoverBranch w st0)
                   (watershedBranch w st0 lat lon online) (weatherBranch w st0 lat lon online) \<and>
             watershed r = None \<and>
             (online \<longrightarrow>
                weather r = fst (fst (getWeather (weatherWorld w) lat lon (weatherService st))))"
    using init ret ws wx by blast
  have errs: "errors (assemble lat lon isoStr online lp ap cp wp xp)
           = errorOf ''Local data: '' lp @ errorOf ''Admin data: '' ap @
             errorOf ''Land cover: '' cp @ errorOf ''Watershed: '' wp"
    unfolding assemble_def by simp
  have rejected: "errorOf label (Rejected e :: 'a option settled) = [label @ errToString e]"
    and fulfilled: "errorOf label (Fulfilled v :: 'a option settled) = []"
    by (simp_all add: errorOf_def)
  have blocks: "admin (assemble lat lon isoStr online lp ap cp wp xp) = blockOf ap"
    "landCover (assemble lat lon isoStr online lp ap cp wp xp) = blockOf cp"
    "watershed (assemble lat lon isoStr online lp ap cp wp xp) = blockOf wp"
    "weather (assemble lat lon isoStr online lp ap cp wp xp) = blockOf xp"
    "localData (assemble lat lon isoStr online lp ap cp wp xp) = blockOf lp"
    unfolding assemble_def by simp_all
  show ?thesis
    by (rule conjI[OF errs conjI[OF rejected conjI[OF fulfilled conjI[OF blocks(1)
          conjI[OF blocks(2) conjI[OF blocks(3) conjI[OF blocks(4) conjI[OF blocks(5)
          conjI[OF same run]]]]]]]]])
qed

text \<open>
  The world whose API answers HTTP 500: the call at (12.9, 74.85), online, does what it
  does in the world whose API answers \<open>null\<close>, and its result has the boundary block, no
  watershed, the weather payload and no error.
\<close>

theorem C4_diagnostics_amended_witness:
  "adminAnswer failingApiWorld queryLat queryLon = HttpError 500 [] \<and>
   mwsAnswer failingApiWorld queryLat queryLon = HttpError 500 [] \<and>
   initialized (locationData (sampleServices dkNamed)) \<and>
   enrichLocation failingApiWorld (sampleServices dkNamed) queryLat queryLon True
     = enrichLocation emptyApiWorld (sampleServices dkNamed) queryLat queryLon True \<and>
   map_sum id fst (enrichLocation emptyApiWorld (sampleServices dkNamed) queryLat queryLon True) =
     Inr \<lparr> coordinates = (queryLat, queryLon), timestamp = ''2026-01-01T00:00:00.000Z'',
           admin = Some namedAdmin, landCover = Some sampleLandCover, watershed = None,
           weather = Some (toWeatherData sampleRaw ''2026-01-01T00:00:00.000Z''),
           localData = Some sampleValues, isOnline = True, errors = [], warnings = [] \<rparr>"
proof -
  have a: "adminAnswer failingApiWorld queryLat queryLon = HttpError 500 []"
    and b: "mwsAnswer failingApiWorld queryLat queryLon = HttpError 500 []"
    by (simp_all add: failingApiWorld_def)
  have i: "initialized (locationData (sampleServices dkNamed))"
    by (rule sample_initialized)
  from C4_diagnostics_amended[OF a b disjI1[OF i], where online = True]
  have same: "enrichLocation failingApiWorld (sampleServices dkNamed) queryLat queryLon True
      = enrichLocation emptyApiWorld (sampleServices dkNamed) queryLat queryLon True"
    unfolding emptyApiWorld_def by blast
  have "map_sum id fst (enrichLocation emptyApiWorld (sampleServices dkNamed)
                          queryLat queryLon True) =
     Inr \<lparr> coordinates = (queryLat, queryLon), timestamp = ''2026-01-01T00:00:00.000Z'',
           admin = Some namedAdmin, landCover = Some sampleLandCover, watershed = None,
           weather = Some (toWeatherData sampleRaw ''2026-01-01T00:00:00.000Z''),
           localData = Some sampleValues, isOnline = True, errors = [], warnings = [] \<rparr>"
    unfolding same[symmetric] by (simp add: sample_enrichLocation)
  with a b i same show ?thesis
    by (intro conjI)
qed

subsection \<open>Land cover\<close>

text \<open>
  The version of the land-cover adapter beside \<open>WeatherService\<close> has no point data, and
  every land-cover block of \<open>getLandCoverData\<close> is flagged as not point-specific.
\<close>

lemma fetchPointData_null:
  "fetchPointData lat lon date = None \<and> \<not> isPointDataAvailable"
  by (simp add: fetchPointData_def isPointDataAvailable_def)

lemma enrichLocation_landCover_never_point_specific:
  assumes "enrichLocation w st lat lon online = Inr (r, st')"
  shows "\<exists>b. landCover r = Some b \<and> \<not> pointDataAvailable b \<and> lc_source b \<noteq> dynamicworld_point"
proof -
  from assms obtain st0 where "enrichInitialized w st0 lat lon online = (r, st')"
    by (auto simp: enrichLocation_def split: sum.splits)
  then have "landCover r = fst (getLandCoverData (dwFile w) (dynamicWorldService st0))"
    by (auto simp: enrichInitialized_def assemble_def landCoverBranch_def blockOf_def
        split: option.splits)
  with getLandCoverData_never_point_specific[of "dwFile w" "dynamicWorldService st0"]
  show ?thesis by simp
qed

text \<open>
  C9. The claim: \<open>fetchPointData\<close> returns \<open>null\<close> for every coordinate and date, so no
  code path produces a point-specific classification. The version of the adapter beside
  \<open>WeatherService\<close> does so (\<open>fetchPointData_null\<close>). The \<open>fetchPointData\<close> of
  \<open>src/services/DynamicWorldService.ts\<close> does not: online, with the regional file loaded,
  it answers a query at (12.9, 74.85) with the class Trees and a confidence of 0.6, both
  computed from the areas of the whole region.
\<close>

theorem C9_fetchPointData_estimates_from_region:
  "fetchPointDataEstimate ''2026-01-01T00:00:00.000Z'' sampleRegion queryLat queryLon None =
     Some \<lparr> pd_lat = queryLat, pd_lon = queryLon,
            pd_timestamp = ''2026-01-01T00:00:00.000Z'',
            landCoverClass = ''Trees'', pd_confidence = 3 / 5,
            probabilities =
              [(''Water'', 1 / 20), (''Trees'', 3 / 5), (''Grass'', 1 / 20),
               (''Flooded Vegetation'', 0), (''Crops'', 3 / 20), (''Shrub and Scrub'', 1 / 20),
               (''Built'', 2 / 25), (''Bare'', 1 / 50), (''Snow and Ice'', 0)] \<rparr>"
  by code_simp


end
